theory Spec2Isabelle
  imports Main "HOL-Library.Word"
begin

section \<open>The Auto Bell sketch: constants and state\<close>

text \<open>
  The sketch \<^verbatim>\<open>AutoBellTSS.ino\<close> keeps all of its scheduling state in global
  variables. The model collects them in one record and passes it through every function
  that reads or writes a global. Inputs of the outside world are arguments: the value of
  \<^verbatim>\<open>millis()\<close> (an \<^verbatim>\<open>unsigned long\<close>, 32 bits), and the reading
  \<^verbatim>\<open>Rtc.GetDateTime()\<close> returns.

  C++ \<^verbatim>\<open>int\<close> variables are modelled as \<^typ>\<open>int\<close>: every value the sketch
  stores in one is small, with one exception, the product \<^verbatim>\<open>bell_duration * 1000\<close>,
  whose wrap-around is written out in \<open>bell_limit\<close> below. EEPROM cells are bytes.

  The model covers the scheduling core: \<^verbatim>\<open>setup\<close>, the part of \<^verbatim>\<open>loop\<close> before
  \<^verbatim>\<open>handleButtons\<close>, \<^verbatim>\<open>updateTimeFromRTC\<close>, \<^verbatim>\<open>findNextBell\<close>,
  \<^verbatim>\<open>isWeekend\<close>, \<^verbatim>\<open>saveAlarm\<close>, \<^verbatim>\<open>readAlarm\<close> and
  \<^verbatim>\<open>initializeEEPROM\<close>. The button editor and the display are left out.
\<close>

abbreviation (input) EEPROM_INIT_FLAG :: int where "EEPROM_INIT_FLAG \<equiv> 0"
abbreviation (input) BELL_DURATION_ADDR :: int where "BELL_DURATION_ADDR \<equiv> 10"
abbreviation (input) WEEKEND_DAY_ADDR :: int where "WEEKEND_DAY_ADDR \<equiv> 11"
abbreviation (input) ALARM_COUNT_ADDR :: int where "ALARM_COUNT_ADDR \<equiv> 12"
abbreviation (input) ALARM_DATA_START :: int where "ALARM_DATA_START \<equiv> 50"
abbreviation (input) MAX_ALARMS :: nat where "MAX_ALARMS \<equiv> 30"
abbreviation (input) MAX_BELL_DURATION :: int where "MAX_BELL_DURATION \<equiv> 99"
abbreviation (input) MIN_BELL_DURATION :: int where "MIN_BELL_DURATION \<equiv> 1"

type_synonym eeprom_mem = "int \<Rightarrow> 8 word"

text \<open>\<^verbatim>\<open>EEPROM.read(a)\<close> returns the byte at \<open>a\<close>; \<^verbatim>\<open>EEPROM.write(a, v)\<close>
  takes a \<^verbatim>\<open>uint8_t\<close>, so an \<^verbatim>\<open>int\<close> argument is truncated to its low byte.\<close>

definition EEPROM_read :: "eeprom_mem \<Rightarrow> int \<Rightarrow> int" where
  "EEPROM_read e a = uint (e a)"

definition EEPROM_write :: "eeprom_mem \<Rightarrow> int \<Rightarrow> int \<Rightarrow> eeprom_mem" where
  "EEPROM_write e a v = e(a := word_of_int v)"

text \<open>What \<^verbatim>\<open>Rtc.GetDateTime()\<close> hands to \<^verbatim>\<open>updateTimeFromRTC\<close>:
  \<^verbatim>\<open>IsValid()\<close>, the time of day, and \<^verbatim>\<open>DayOfWeek()\<close> (0 = Sunday .. 6 = Saturday).\<close>

record RtcDateTime =
  IsValid :: bool
  Hour :: int
  Minute :: int
  Second :: int
  DayOfWeek :: int

record state =
  hh :: int
  mm :: int
  ss :: int
  set_day :: int
  bell_duration :: int
  weekend :: int
  total_alarms :: int
  next_bell_hour :: int
  next_bell_minute :: int
  next_bell_found :: bool
  rtc_valid :: bool
  last_rtc_update :: "32 word"
  bellActive :: bool
  bellStart :: "32 word"
  lastBellMinute :: int
  alarms_triggered_today :: "bool list"
  last_checked_day :: int
  eeprom :: eeprom_mem
  relay :: bool
  led_bell :: bool

text \<open>The globals as their initialisers leave them, over a given EEPROM content.
  \<^verbatim>\<open>alarms_triggered_today\<close> is an array of \<open>MAX_ALARMS\<close> booleans, modelled as a
  list of that length. The sketch keeps \<^verbatim>\<open>total_alarms\<close> at or below \<open>MAX_ALARMS\<close>
  (\<^verbatim>\<open>setup\<close> resets a larger count, \<^verbatim>\<open>saveAlarm\<close> bounds its index), so every
  index its loops use lies inside the array.\<close>

definition initial_state :: "eeprom_mem \<Rightarrow> state" where
  "initial_state e =
     \<lparr> hh = 0, mm = 0, ss = 0, set_day = 0, bell_duration = 3, weekend = 6,
       total_alarms = 0, next_bell_hour = 0, next_bell_minute = 0,
       next_bell_found = False, rtc_valid = True, last_rtc_update = 0,
       bellActive = False, bellStart = 0, lastBellMinute = -1,
       alarms_triggered_today = replicate MAX_ALARMS False, last_checked_day = -1,
       eeprom = e, relay = False, led_bell = False \<rparr>"

section \<open>Alarm table access\<close>

text \<open>\<^verbatim>\<open>saveAlarm(index, hour, minute)\<close>.\<close>

definition saveAlarm :: "state \<Rightarrow> int \<Rightarrow> int \<Rightarrow> int \<Rightarrow> state" where
  "saveAlarm s index hour minute =
     (if index < 0 \<or> index \<ge> int MAX_ALARMS then s
      else
        let address = ALARM_DATA_START + index * 2;
            s1 = s\<lparr>eeprom := EEPROM_write (eeprom s) address hour\<rparr>;
            s2 = s1\<lparr>eeprom := EEPROM_write (eeprom s1) (address + 1) minute\<rparr>
        in if index \<ge> total_alarms s2
           then (let s3 = s2\<lparr>total_alarms := index + 1\<rparr>
                 in s3\<lparr>eeprom := EEPROM_write (eeprom s3) ALARM_COUNT_ADDR (total_alarms s3)\<rparr>)
           else s2)"

text \<open>\<^verbatim>\<open>readAlarm(index, hour, minute)\<close>: the two reference parameters are the result.\<close>

definition readAlarm :: "state \<Rightarrow> int \<Rightarrow> int \<times> int" where
  "readAlarm s index =
     (if index < 0 \<or> index \<ge> total_alarms s then (0, 0)
      else
        let address = ALARM_DATA_START + index * 2
        in (EEPROM_read (eeprom s) address, EEPROM_read (eeprom s) (address + 1)))"

section \<open>Weekend policy and next-bell search\<close>

text \<open>\<^verbatim>\<open>isWeekend(day)\<close> reads the global \<^verbatim>\<open>weekend\<close>.\<close>

definition isWeekend :: "state \<Rightarrow> int \<Rightarrow> bool" where
  "isWeekend s day = (if weekend s = 6 then (day = 6 \<or> day = 7) else (day = weekend s))"

text \<open>The \<^verbatim>\<open>for\<close> loop of \<^verbatim>\<open>findNextBell\<close> from index \<open>i\<close> on, with the
  fall-back to slot 0 that follows the loop.\<close>

function findNextBell_scan :: "nat \<Rightarrow> state \<Rightarrow> state" where
  "findNextBell_scan i s =
     (if int i < total_alarms s then
        (let check_hour = fst (readAlarm s (int i));
             check_minute = snd (readAlarm s (int i));
             is_future = (check_hour > hh s \<or> (check_hour = hh s \<and> check_minute > mm s));
             is_current_untriggered =
               (check_hour = hh s \<and> check_minute = mm s \<and> \<not> alarms_triggered_today s ! i)
         in if is_future \<or> is_current_untriggered
            then s\<lparr>next_bell_hour := check_hour, next_bell_minute := check_minute,
                   next_bell_found := True\<rparr>
            else findNextBell_scan (i + 1) s)
      else if total_alarms s > 0
           then s\<lparr>next_bell_hour := fst (readAlarm s 0),
                  next_bell_minute := snd (readAlarm s 0), next_bell_found := True\<rparr>
           else s)"
  by pat_completeness auto
termination
  by (relation "measure (\<lambda>(i, s). nat (total_alarms s) - i)") auto

declare findNextBell_scan.simps [simp del]

definition findNextBell :: "state \<Rightarrow> state" where
  "findNextBell s =
     (let s1 = s\<lparr>next_bell_found := False\<rparr>
      in if isWeekend s1 (set_day s1) then s1
         else if total_alarms s1 = 0 then s1
         else findNextBell_scan 0 s1)"

text \<open>What the display shows as next bell: the pair of globals, when one was found.\<close>

definition next_bell :: "state \<Rightarrow> (int \<times> int) option" where
  "next_bell s = (if next_bell_found s then Some (next_bell_hour s, next_bell_minute s) else None)"

section \<open>Clock poll\<close>

text \<open>The reset loop of \<^verbatim>\<open>updateTimeFromRTC\<close> over the trigger array.\<close>

definition clear_triggered :: "bool list \<Rightarrow> bool list" where
  "clear_triggered a = fold (\<lambda>i a. a[i := False]) [0..<MAX_ALARMS] a"

definition updateTimeFromRTC :: "state \<Rightarrow> RtcDateTime \<Rightarrow> state" where
  "updateTimeFromRTC s now =
     (if IsValid now then
        (let old_day = set_day s;
             s1 = s\<lparr>ss := Second now, mm := Minute now, hh := Hour now,
                    set_day := DayOfWeek now + 1\<rparr>;
             s2 = (if old_day \<noteq> set_day s1
                   then s1\<lparr>alarms_triggered_today := clear_triggered (alarms_triggered_today s1),
                           lastBellMinute := -1\<rparr>
                   else s1)
         in s2\<lparr>rtc_valid := True\<rparr>)
      else s\<lparr>rtc_valid := False\<rparr>)"

section \<open>The scheduling part of the main loop\<close>

text \<open>The body of the \<^verbatim>\<open>if\<close> inside the start-bell loop: what happens when slot
  \<open>i\<close> fires at time \<open>current_millis\<close>.\<close>

definition fire_alarm :: "state \<Rightarrow> 32 word \<Rightarrow> nat \<Rightarrow> state" where
  "fire_alarm s current_millis i =
     findNextBell
       (s\<lparr>alarms_triggered_today := (alarms_triggered_today s)[i := True],
          lastBellMinute := mm s, relay := True, led_bell := True,
          bellStart := current_millis, bellActive := True\<rparr>)"

text \<open>The condition of that \<^verbatim>\<open>if\<close>.\<close>

definition alarm_matches :: "state \<Rightarrow> nat \<Rightarrow> bool" where
  "alarm_matches s i =
     (fst (readAlarm s (int i)) = hh s \<and> snd (readAlarm s (int i)) = mm s \<and>
      \<not> alarms_triggered_today s ! i \<and> lastBellMinute s \<noteq> mm s)"

text \<open>The start-bell \<^verbatim>\<open>for\<close> loop from index \<open>i\<close> on; firing ends the loop
  (\<^verbatim>\<open>break\<close>).\<close>

function startBell_scan :: "nat \<Rightarrow> state \<Rightarrow> 32 word \<Rightarrow> state" where
  "startBell_scan i s current_millis =
     (if int i < total_alarms s then
        (if alarm_matches s i then fire_alarm s current_millis i
         else startBell_scan (i + 1) s current_millis)
      else s)"
  by pat_completeness auto
termination
  by (relation "measure (\<lambda>(i, s, t). nat (total_alarms s) - i)") auto

declare startBell_scan.simps [simp del]

definition startBell :: "state \<Rightarrow> 32 word \<Rightarrow> state" where
  "startBell s current_millis =
     (if \<not> bellActive s \<and> \<not> isWeekend s (set_day s)
      then startBell_scan 0 s current_millis else s)"

text \<open>The sketch is written for the ATmega boards (it uses \<^verbatim>\<open>EEPROM.h\<close> with no
  \<^verbatim>\<open>begin\<close>/\<^verbatim>\<open>commit\<close> and the analog pins A0..A3 as inputs with pull-ups), where
  \<^verbatim>\<open>int\<close> has 16 bits. \<^verbatim>\<open>bell_duration * 1000\<close> is a product of two \<^verbatim>\<open>int\<close>s,
  so it wraps to 16 bits before the cast to \<^verbatim>\<open>unsigned long\<close> extends its sign.\<close>

definition int16_wrap :: "int \<Rightarrow> int" where
  "int16_wrap x = (x + 32768) mod 65536 - 32768"

definition bell_limit :: "int \<Rightarrow> 32 word" where
  "bell_limit d = word_of_int (int16_wrap (d * 1000))"

definition stopBell :: "state \<Rightarrow> 32 word \<Rightarrow> state" where
  "stopBell s current_millis =
     (if bellActive s \<and> current_millis - bellStart s \<ge> bell_limit (bell_duration s)
      then s\<lparr>relay := False, led_bell := False, bellActive := False\<rparr>
      else s)"

text \<open>The once-a-second clock poll at the head of \<^verbatim>\<open>loop()\<close>;
  \<^verbatim>\<open>checkForAlarms()\<close> has an empty body.\<close>

definition rtc_poll :: "state \<Rightarrow> 32 word \<Rightarrow> RtcDateTime \<Rightarrow> state" where
  "rtc_poll s current_millis now =
     (if current_millis - last_rtc_update s \<ge> 1000
      then updateTimeFromRTC (s\<lparr>last_rtc_update := current_millis\<rparr>) now
      else s)"

text \<open>One iteration of \<^verbatim>\<open>loop()\<close> up to the call of \<^verbatim>\<open>handleButtons()\<close>:
  clock poll, start-bell scan, stop-bell check.\<close>

definition loop_iter :: "state \<Rightarrow> 32 word \<times> RtcDateTime \<Rightarrow> state" where
  "loop_iter s inp =
     stopBell (startBell (rtc_poll s (fst inp) (snd inp)) (fst inp)) (fst inp)"

text \<open>A run of the loop over a sequence of inputs.\<close>

definition run :: "state \<Rightarrow> (32 word \<times> RtcDateTime) list \<Rightarrow> state" where
  "run s inps = foldl loop_iter s inps"

section \<open>Boot\<close>

definition initializeEEPROM :: "eeprom_mem \<Rightarrow> eeprom_mem" where
  "initializeEEPROM e =
     (if EEPROM_read e EEPROM_INIT_FLAG \<noteq> 0xAA then
        (let e1 = EEPROM_write e EEPROM_INIT_FLAG 0xAA;
             e2 = EEPROM_write e1 BELL_DURATION_ADDR 30;
             e3 = EEPROM_write e2 WEEKEND_DAY_ADDR 6;
             e4 = EEPROM_write e3 ALARM_COUNT_ADDR 0
         in fold (\<lambda>i e. EEPROM_write e (ALARM_DATA_START + int i) 0) [0..<MAX_ALARMS * 2] e4)
      else e)"

text \<open>The part of \<^verbatim>\<open>setup()\<close> that reads the three settings and validates them.\<close>

definition setup_settings :: "state \<Rightarrow> state" where
  "setup_settings s =
     (let s1 = s\<lparr>bell_duration := EEPROM_read (eeprom s) BELL_DURATION_ADDR,
                 weekend := EEPROM_read (eeprom s) WEEKEND_DAY_ADDR,
                 total_alarms := EEPROM_read (eeprom s) ALARM_COUNT_ADDR\<rparr>;
          s2 = (if bell_duration s1 < MIN_BELL_DURATION \<or> bell_duration s1 > MAX_BELL_DURATION
                then s1\<lparr>bell_duration := 3,
                        eeprom := EEPROM_write (eeprom s1) BELL_DURATION_ADDR 3\<rparr>
                else s1);
          s3 = (if weekend s2 < 1 \<or> weekend s2 > 7
                then s2\<lparr>weekend := 6, eeprom := EEPROM_write (eeprom s2) WEEKEND_DAY_ADDR 6\<rparr>
                else s2)
      in if total_alarms s3 > int MAX_ALARMS
         then s3\<lparr>total_alarms := 0, eeprom := EEPROM_write (eeprom s3) ALARM_COUNT_ADDR 0\<rparr>
         else s3)"

text \<open>\<^verbatim>\<open>setup()\<close> as far as the scheduling state goes: EEPROM initialisation, settings,
  first clock poll, first next-bell search; \<^verbatim>\<open>quickBellTest()\<close> ends with the relay
  and the bell LED off.\<close>

definition setup_sketch :: "eeprom_mem \<Rightarrow> RtcDateTime \<Rightarrow> state" where
  "setup_sketch e now =
     (let s1 = setup_settings (initial_state (initializeEEPROM e));
          s2 = updateTimeFromRTC s1 now;
          s3 = s2\<lparr>last_checked_day := set_day s2\<rparr>;
          s4 = findNextBell s3
      in s4\<lparr>relay := False, led_bell := False\<rparr>)"

section \<open>The next-bell finder as the specification words it\<close>

text \<open>The alarm table: the slots \<open>0 .. total_alarms - 1\<close> as \<open>readAlarm\<close> returns them.\<close>

definition alarm_table :: "state \<Rightarrow> (int \<times> int) list" where
  "alarm_table s = map (\<lambda>i. readAlarm s (int i)) [0..<nat (total_alarms s)]"

text \<open>A slot is strictly later than the current (hour, minute).\<close>

definition later_than :: "int \<times> int \<Rightarrow> int \<times> int \<Rightarrow> bool" where
  "later_than slot now = (fst slot > fst now \<or> (fst slot = fst now \<and> snd slot > snd now))"

text \<open>The specification's next-bell finder: none on a weekend day or for an empty table;
  otherwise the first slot in table order that is strictly later than the current time, or
  equal to it and not yet triggered; slot 0 when no slot qualifies.\<close>

definition findNextBell_spec ::
    "bool \<Rightarrow> (int \<times> int) list \<Rightarrow> bool list \<Rightarrow> int \<times> int \<Rightarrow> (int \<times> int) option" where
  "findNextBell_spec is_weekend table triggered now =
     (if is_weekend \<or> table = [] then None
      else (case find (\<lambda>i. later_than (table ! i) now \<or> (table ! i = now \<and> \<not> triggered ! i))
                   [0..<length table] of
              Some i \<Rightarrow> Some (table ! i)
            | None \<Rightarrow> Some (table ! 0)))"

text \<open>The condition under which the loop of \<open>findNextBell\<close> takes slot \<open>i\<close>.\<close>

definition next_bell_candidate :: "state \<Rightarrow> nat \<Rightarrow> bool" where
  "next_bell_candidate s i =
     (later_than (readAlarm s (int i)) (hh s, mm s) \<or>
      (readAlarm s (int i) = (hh s, mm s) \<and> \<not> alarms_triggered_today s ! i))"

text \<open>A state with the three next-bell globals blanked: two states that agree on it differ
  in the next-bell globals only.\<close>

definition without_next_bell :: "state \<Rightarrow> state" where
  "without_next_bell s = s\<lparr>next_bell_hour := 0, next_bell_minute := 0, next_bell_found := False\<rparr>"

section \<open>Example inputs\<close>

text \<open>A blank EEPROM (every cell 0xFF) after its first initialisation, with the alarms
  08:00 and 09:00 saved in slots 0 and 1.\<close>

definition ex_two_alarms :: state where
  "ex_two_alarms = saveAlarm (saveAlarm (initial_state (initializeEEPROM (\<lambda>_. 0xFF))) 0 8 0) 1 9 0"

text \<open>The table 09:00, 08:00 (out of chronological order) on a Monday at 08:30.\<close>

definition ex_out_of_order :: state where
  "ex_out_of_order =
     (saveAlarm (saveAlarm (initial_state (initializeEEPROM (\<lambda>_. 0xFF))) 0 9 0) 1 8 0)
       \<lparr>hh := 8, mm := 30, set_day := 2\<rparr>"

text \<open>An initialised EEPROM whose three settings are out of range.\<close>

definition ex_corrupt_settings :: eeprom_mem where
  "ex_corrupt_settings = (\<lambda>_. 0)(0 := 0xAA, 10 := 150, 11 := 0, 12 := 200)"

text \<open>Valid clock readings on a Monday and on a Tuesday, and an invalid reading.\<close>

definition monday_at :: "int \<Rightarrow> int \<Rightarrow> int \<Rightarrow> RtcDateTime" where
  "monday_at h m s = \<lparr>IsValid = True, Hour = h, Minute = m, Second = s, DayOfWeek = 1\<rparr>"

definition tuesday_at :: "int \<Rightarrow> int \<Rightarrow> int \<Rightarrow> RtcDateTime" where
  "tuesday_at h m s = \<lparr>IsValid = True, Hour = h, Minute = m, Second = s, DayOfWeek = 2\<rparr>"

definition ex_invalid_reading :: RtcDateTime where
  "ex_invalid_reading = \<lparr>IsValid = False, Hour = 0, Minute = 0, Second = 0, DayOfWeek = 0\<rparr>"

text \<open>An initialised EEPROM: bell duration 3 s, weekend selector 6, two alarms, 08:00 and
  09:00. The states below are what \<open>setup\<close> leaves on it: on a Monday at 07:59:00, on a
  Monday at 08:00:00, and at 07:59:00 with the stored bell duration changed to 33 and to 66
  seconds.\<close>

definition ex_school_eeprom :: eeprom_mem where
  "ex_school_eeprom =
     (\<lambda>_. 0)(0 := 0xAA, 10 := 3, 11 := 6, 12 := 2, 50 := 8, 51 := 0, 52 := 9, 53 := 0)"

definition ex_boot :: state where
  "ex_boot = setup_sketch ex_school_eeprom (monday_at 7 59 0)"


definition ex_boot_33 :: state where
  "ex_boot_33 = setup_sketch (ex_school_eeprom(10 := 33)) (monday_at 7 59 0)"

definition ex_boot_66 :: state where
  "ex_boot_66 = setup_sketch (ex_school_eeprom(10 := 66)) (monday_at 7 59 0)"

text \<open>Two alarms with the same time 08:00 in slots 0 and 1, on a Monday at 08:00, no bell
  rung yet.\<close>

definition ex_duplicates :: state where
  "ex_duplicates =
     (initial_state ((\<lambda>_. 0)(0 := 0xAA, 10 := 3, 11 := 6, 12 := 2, 50 := 8, 51 := 0, 52 := 8, 53 := 0)))
       \<lparr>total_alarms := 2, hh := 8, mm := 0, set_day := 2\<rparr>"

text \<open>A valid reading on a Saturday, and a Friday (a weekend day under selector 6) at
  23:59:59 on which the flag of slot 0 is set and \<open>lastBellMinute\<close> is 0, as after the
  weekend selector was changed during a day on which the 08:00 bell had rung.\<close>

definition saturday_at :: "int \<Rightarrow> int \<Rightarrow> int \<Rightarrow> RtcDateTime" where
  "saturday_at h m s = \<lparr>IsValid = True, Hour = h, Minute = m, Second = s, DayOfWeek = 6\<rparr>"

definition ex_friday_rung :: state where
  "ex_friday_rung =
     (initial_state ex_school_eeprom)
       \<lparr>total_alarms := 2, hh := 23, mm := 59, ss := 59, set_day := 6, last_rtc_update := 5000,
        alarms_triggered_today := (replicate MAX_ALARMS False)[0 := True], lastBellMinute := 0\<rparr>"

section \<open>Frame and storage lemmas\<close>

lemma clear_triggered_aux:
  "n \<le> length a \<Longrightarrow> fold (\<lambda>i a. a[i := False]) [0..<n] a = replicate n False @ drop n a"
proof (induction n)
  case 0
  then show ?case by simp
next
  case (Suc n)
  then have "n < length a" by simp
  then have "(replicate n False @ drop n a)[n := False] = replicate (Suc n) False @ drop (Suc n) a"
    by (simp add: list_update_append replicate_append_same upd_conv_take_nth_drop
        flip: Cons_nth_drop_Suc)
  with Suc show ?case by simp
qed

lemma clear_triggered_eq:
  "length a = MAX_ALARMS \<Longrightarrow> clear_triggered a = replicate MAX_ALARMS False"
  unfolding clear_triggered_def by (simp add: clear_triggered_aux)

lemma findNextBell_scan_frame:
  "without_next_bell (findNextBell_scan i s) = without_next_bell s"
proof (induction i s rule: findNextBell_scan.induct)
  case (1 i s)
  show ?case
    apply (subst findNextBell_scan.simps)
    using 1 by (auto simp: Let_def without_next_bell_def)
qed

lemma findNextBell_frame: "without_next_bell (findNextBell s) = without_next_bell s"
proof -
  have "without_next_bell (findNextBell_scan 0 (s\<lparr>next_bell_found := False\<rparr>)) = without_next_bell s"
    by (simp add: findNextBell_scan_frame) (simp add: without_next_bell_def)
  then show ?thesis
    by (simp add: findNextBell_def Let_def) (simp add: without_next_bell_def)
qed

lemma findNextBell_fields [simp]:
  "hh (findNextBell s) = hh s" "mm (findNextBell s) = mm s" "ss (findNextBell s) = ss s"
  "set_day (findNextBell s) = set_day s" "bell_duration (findNextBell s) = bell_duration s"
  "weekend (findNextBell s) = weekend s" "total_alarms (findNextBell s) = total_alarms s"
  "rtc_valid (findNextBell s) = rtc_valid s" "last_rtc_update (findNextBell s) = last_rtc_update s"
  "bellActive (findNextBell s) = bellActive s" "bellStart (findNextBell s) = bellStart s"
  "lastBellMinute (findNextBell s) = lastBellMinute s"
  "alarms_triggered_today (findNextBell s) = alarms_triggered_today s"
  "last_checked_day (findNextBell s) = last_checked_day s" "eeprom (findNextBell s) = eeprom s"
  "relay (findNextBell s) = relay s" "led_bell (findNextBell s) = led_bell s"
proof -
  let ?a = "without_next_bell (findNextBell s)" and ?b = "without_next_bell s"
  have "hh ?a = hh ?b" "mm ?a = mm ?b" "ss ?a = ss ?b" "set_day ?a = set_day ?b"
    "bell_duration ?a = bell_duration ?b" "weekend ?a = weekend ?b"
    "total_alarms ?a = total_alarms ?b" "rtc_valid ?a = rtc_valid ?b"
    "last_rtc_update ?a = last_rtc_update ?b" "bellActive ?a = bellActive ?b"
    "bellStart ?a = bellStart ?b" "lastBellMinute ?a = lastBellMinute ?b"
    "alarms_triggered_today ?a = alarms_triggered_today ?b"
    "last_checked_day ?a = last_checked_day ?b" "eeprom ?a = eeprom ?b"
    "relay ?a = relay ?b" "led_bell ?a = led_bell ?b"
    by (simp_all only: findNextBell_frame)
  then show "hh (findNextBell s) = hh s" "mm (findNextBell s) = mm s" "ss (findNextBell s) = ss s"
  "set_day (findNextBell s) = set_day s" "bell_duration (findNextBell s) = bell_duration s"
  "weekend (findNextBell s) = weekend s" "total_alarms (findNextBell s) = total_alarms s"
  "rtc_valid (findNextBell s) = rtc_valid s" "last_rtc_update (findNextBell s) = last_rtc_update s"
  "bellActive (findNextBell s) = bellActive s" "bellStart (findNextBell s) = bellStart s"
  "lastBellMinute (findNextBell s) = lastBellMinute s"
  "alarms_triggered_today (findNextBell s) = alarms_triggered_today s"
  "last_checked_day (findNextBell s) = last_checked_day s" "eeprom (findNextBell s) = eeprom s"
  "relay (findNextBell s) = relay s" "led_bell (findNextBell s) = led_bell s"
    by (simp_all add: without_next_bell_def)
qed

lemma readAlarm_findNextBell [simp]: "readAlarm (findNextBell s) i = readAlarm s i"
  by (simp add: readAlarm_def)

lemma isWeekend_findNextBell [simp]: "isWeekend (findNextBell s) d = isWeekend s d"
  by (simp add: isWeekend_def)

lemma EEPROM_read_write:
  "EEPROM_read (EEPROM_write e a v) b = (if b = a then v mod 256 else EEPROM_read e b)"
  by (simp add: EEPROM_read_def EEPROM_write_def uint_word_of_int)

lemma saveAlarm_total:
  "0 \<le> index \<Longrightarrow> index < int MAX_ALARMS \<Longrightarrow>
   total_alarms (saveAlarm s index hour minute) = (if index \<ge> total_alarms s then index + 1 else total_alarms s)"
  by (simp add: saveAlarm_def Let_def)

lemma saveAlarm_eeprom:
  "0 \<le> index \<Longrightarrow> index < int MAX_ALARMS \<Longrightarrow>
   EEPROM_read (eeprom (saveAlarm s index hour minute)) a =
     (if a = ALARM_COUNT_ADDR \<and> index \<ge> total_alarms s then index + 1
      else if a = ALARM_DATA_START + index * 2 + 1 then minute mod 256
      else if a = ALARM_DATA_START + index * 2 then hour mod 256
      else EEPROM_read (eeprom s) a)"
  by (auto simp add: saveAlarm_def Let_def EEPROM_read_write)

lemma zero_fill_fold:
  "fold (\<lambda>i e. EEPROM_write e (ALARM_DATA_START + int i) 0) [0..<n] e a =
     (if ALARM_DATA_START \<le> a \<and> a < ALARM_DATA_START + int n then 0 else e a)"
  by (induction n) (auto simp: EEPROM_write_def)

lemma initializeEEPROM_fresh:
  "EEPROM_read e EEPROM_INIT_FLAG \<noteq> 0xAA \<Longrightarrow>
   EEPROM_read (initializeEEPROM e) a =
     (if ALARM_DATA_START \<le> a \<and> a < ALARM_DATA_START + 60 then 0
      else if a = ALARM_COUNT_ADDR then 0
      else if a = WEEKEND_DAY_ADDR then 6
      else if a = BELL_DURATION_ADDR then 30
      else if a = EEPROM_INIT_FLAG then 0xAA
      else EEPROM_read e a)"
  by (simp add: initializeEEPROM_def Let_def EEPROM_read_def zero_fill_fold)
    (simp add: EEPROM_write_def)

lemma initializeEEPROM_kept:
  "EEPROM_read e EEPROM_INIT_FLAG = 0xAA \<Longrightarrow> initializeEEPROM e = e"
  by (simp add: initializeEEPROM_def)

lemma ex_blank_flag: "EEPROM_read (\<lambda>_. 0xFF) EEPROM_INIT_FLAG \<noteq> 0xAA"
  by (simp add: EEPROM_read_def)

lemma ex_two_alarms_total: "total_alarms ex_two_alarms = 2"
  by (simp add: ex_two_alarms_def saveAlarm_total initial_state_def)

section \<open>Alarm table access\<close>

text \<open>C10: for an index that is negative or not below \<open>total_alarms\<close>, \<open>readAlarm\<close>
  returns (0, 0), and it does so whatever the EEPROM holds: the result does not depend on
  any stored slot. \<open>readAlarm\<close> is a total function that returns the pair only, so it
  neither fails nor writes.\<close>

theorem readAlarm_out_of_range:
  "i < 0 \<or> total_alarms s \<le> i \<Longrightarrow>
     readAlarm s i = (0, 0) \<and> readAlarm (s\<lparr>eeprom := e\<rparr>) i = (0, 0)"
  by (simp add: readAlarm_def)

theorem readAlarm_out_of_range_witness:
  "(5 < (0::int) \<or> total_alarms (initial_state (\<lambda>_. 0xFF)) \<le> 5)
   \<and> readAlarm (initial_state (\<lambda>_. 0xFF)) 5 = (0, 0)
   \<and> readAlarm (initial_state (\<lambda>_. 0xFF)) (-1) = (0, 0)"
  using readAlarm_out_of_range [of 5 "initial_state (\<lambda>_. 0xFF)" "\<lambda>_. 0xFF"]
    readAlarm_out_of_range [of "-1" "initial_state (\<lambda>_. 0xFF)" "\<lambda>_. 0xFF"]
  by (simp add: initial_state_def)

text \<open>C9: for \<open>0 \<le> index < MAX_ALARMS\<close>, \<open>saveAlarm\<close> stores the low bytes of hour and
  minute at the slot (the pair itself for a clock time), sets \<open>total_alarms\<close> to
  \<open>index + 1\<close> and persists it whenever \<open>index\<close> is not below the old count, and every
  other slot below the new count reads as the bytes the EEPROM already held there; so a
  skipped slot of zero-initialised storage reads (0, 0).\<close>

theorem saveAlarm_writes_slot:
  assumes "0 \<le> index" and "index < int MAX_ALARMS"
  shows "readAlarm (saveAlarm s index hour minute) index = (hour mod 256, minute mod 256)
    \<and> (0 \<le> hour \<and> hour \<le> 23 \<and> 0 \<le> minute \<and> minute \<le> 59 \<longrightarrow>
         readAlarm (saveAlarm s index hour minute) index = (hour, minute))
    \<and> total_alarms (saveAlarm s index hour minute) =
         (if index \<ge> total_alarms s then index + 1 else total_alarms s)
    \<and> (index \<ge> total_alarms s \<longrightarrow>
         EEPROM_read (eeprom (saveAlarm s index hour minute)) ALARM_COUNT_ADDR = index + 1)
    \<and> (\<forall>j. 0 \<le> j \<and> j < total_alarms (saveAlarm s index hour minute) \<and> j \<noteq> index \<longrightarrow>
         readAlarm (saveAlarm s index hour minute) j =
           (EEPROM_read (eeprom s) (ALARM_DATA_START + j * 2),
            EEPROM_read (eeprom s) (ALARM_DATA_START + j * 2 + 1)))"
proof -
  have r: "readAlarm (saveAlarm s index hour minute) index = (hour mod 256, minute mod 256)"
    using assms
    by (simp add: readAlarm_def saveAlarm_total saveAlarm_eeprom Let_def)
  have c: "index \<ge> total_alarms s \<longrightarrow>
         EEPROM_read (eeprom (saveAlarm s index hour minute)) ALARM_COUNT_ADDR = index + 1"
    using assms by (simp add: saveAlarm_eeprom)
  have o: "\<forall>j. 0 \<le> j \<and> j < total_alarms (saveAlarm s index hour minute) \<and> j \<noteq> index \<longrightarrow>
         readAlarm (saveAlarm s index hour minute) j =
           (EEPROM_read (eeprom s) (ALARM_DATA_START + j * 2),
            EEPROM_read (eeprom s) (ALARM_DATA_START + j * 2 + 1))"
  proof (intro allI impI)
    fix j assume j: "0 \<le> j \<and> j < total_alarms (saveAlarm s index hour minute) \<and> j \<noteq> index"
    then have "50 + j * 2 \<noteq> 12" "50 + j * 2 + 1 \<noteq> 12" "50 + j * 2 \<noteq> 50 + index * 2"
      "50 + j * 2 + 1 \<noteq> 50 + index * 2 + 1" "50 + j * 2 \<noteq> 50 + index * 2 + 1"
      "50 + j * 2 + 1 \<noteq> 50 + index * 2" by presburger+
    with j assms show "readAlarm (saveAlarm s index hour minute) j =
           (EEPROM_read (eeprom s) (ALARM_DATA_START + j * 2),
            EEPROM_read (eeprom s) (ALARM_DATA_START + j * 2 + 1))"
      by (simp add: readAlarm_def saveAlarm_eeprom Let_def)
  qed
  from r c o assms show ?thesis by (simp add: saveAlarm_total)
qed

theorem saveAlarm_writes_slot_witness:
  "(0::int) \<le> 4 \<and> 4 < int MAX_ALARMS \<and> total_alarms ex_two_alarms = 2
   \<and> total_alarms (saveAlarm ex_two_alarms 4 10 30) = 5
   \<and> EEPROM_read (eeprom (saveAlarm ex_two_alarms 4 10 30)) ALARM_COUNT_ADDR = 5
   \<and> readAlarm (saveAlarm ex_two_alarms 4 10 30) 4 = (10, 30)
   \<and> readAlarm (saveAlarm ex_two_alarms 4 10 30) 3 = (0, 0)"
proof -
  have z: "EEPROM_read (eeprom ex_two_alarms) 56 = 0" "EEPROM_read (eeprom ex_two_alarms) 57 = 0"
    by (simp_all add: ex_two_alarms_def saveAlarm_eeprom saveAlarm_total initial_state_def
        initializeEEPROM_fresh [OF ex_blank_flag])
  from saveAlarm_writes_slot [of 4 ex_two_alarms 10 30] z show ?thesis
    by (simp add: ex_two_alarms_total)
qed

section \<open>Next-bell finder\<close>

lemma findNextBell_scan_done:
  "\<not> int i < total_alarms s \<Longrightarrow>
   findNextBell_scan i s =
     (if total_alarms s > 0
      then s\<lparr>next_bell_hour := fst (readAlarm s 0), next_bell_minute := snd (readAlarm s 0),
             next_bell_found := True\<rparr>
      else s)"
  by (subst findNextBell_scan.simps) simp

lemma findNextBell_scan_step:
  "int i < total_alarms s \<Longrightarrow>
   findNextBell_scan i s =
     (if next_bell_candidate s i
      then s\<lparr>next_bell_hour := fst (readAlarm s (int i)),
             next_bell_minute := snd (readAlarm s (int i)), next_bell_found := True\<rparr>
      else findNextBell_scan (Suc i) s)"
  by (subst findNextBell_scan.simps)
    (auto simp: Let_def later_than_def prod_eq_iff next_bell_candidate_def)

lemma findNextBell_scan_find:
  "next_bell (findNextBell_scan i s) =
     (case find (next_bell_candidate s) [i..<nat (total_alarms s)] of
        Some k \<Rightarrow> Some (readAlarm s (int k))
      | None \<Rightarrow> if total_alarms s > 0 then Some (readAlarm s 0) else next_bell s)"
proof (induction "nat (total_alarms s) - i" arbitrary: i)
  case 0
  then have d: "\<not> int i < total_alarms s" by linarith
  then have u: "[i..<nat (total_alarms s)] = []" by simp
  show ?case by (simp add: findNextBell_scan_done [OF d] u next_bell_def)
next
  case (Suc n)
  then have lt: "int i < total_alarms s" by linarith
  then have u: "[i..<nat (total_alarms s)] = i # [Suc i..<nat (total_alarms s)]"
    by (simp add: upt_conv_Cons)
  from Suc have n: "n = nat (total_alarms s) - Suc i" by simp
  show ?case
  proof (cases "next_bell_candidate s i")
    case True
    then show ?thesis
      by (simp add: findNextBell_scan_step [OF lt] u next_bell_def)
  next
    case False
    then show ?thesis
      using Suc.hyps(1) [OF n] by (simp add: findNextBell_scan_step [OF lt] u)
  qed
qed

lemma alarm_table_nth:
  "k < length (alarm_table s) \<Longrightarrow> alarm_table s ! k = readAlarm s (int k)"
  by (simp add: alarm_table_def)

text \<open>C5: \<open>findNextBell\<close> computes what the specification's finder computes on the alarm
  table, the trigger flags and the current time: none on a weekend day or for an empty
  table, else the first slot in table order that is strictly later than now or equal to now
  and untriggered, else slot 0.\<close>

theorem findNextBell_refines_spec:
  "next_bell (findNextBell s) =
     findNextBell_spec (isWeekend s (set_day s)) (alarm_table s) (alarms_triggered_today s)
       (hh s, mm s)"
proof -
  let ?s1 = "s\<lparr>next_bell_found := False\<rparr>"
  let ?Q = "\<lambda>i. later_than (alarm_table s ! i) (hh s, mm s) \<or>
                     (alarm_table s ! i = (hh s, mm s) \<and> \<not> alarms_triggered_today s ! i)"
  have len: "length (alarm_table s) = nat (total_alarms s)" by (simp add: alarm_table_def)
  have r: "readAlarm ?s1 = readAlarm s" by (rule ext) (simp add: readAlarm_def)
  have c: "next_bell_candidate ?s1 = next_bell_candidate s"
    by (rule ext) (simp add: next_bell_candidate_def r)
  have w: "isWeekend ?s1 d = isWeekend s d" for d
    by (simp add: isWeekend_def)
  have fq: "find ?Q [0..<length (alarm_table s)] = find (next_bell_candidate s) [0..<nat (total_alarms s)]"
    by (rule find_cong) (simp_all add: len alarm_table_nth next_bell_candidate_def)
  show ?thesis
  proof (cases "isWeekend s (set_day s) \<or> total_alarms s \<le> 0")
    case True
    then show ?thesis
      by (auto simp: findNextBell_def Let_def findNextBell_spec_def next_bell_def
          alarm_table_def findNextBell_scan_done w)
  next
    case False
    then have ne: "alarm_table s \<noteq> []" "0 < nat (total_alarms s)" "0 < total_alarms s"
      using len by auto
    have t0: "alarm_table s ! 0 = readAlarm s 0"
      using alarm_table_nth [of 0 s] ne len by simp
    have "next_bell (findNextBell s) = next_bell (findNextBell_scan 0 ?s1)"
      using False by (simp add: findNextBell_def Let_def w)
    also have "\<dots> = (case find (next_bell_candidate s) [0..<nat (total_alarms s)] of
        Some k \<Rightarrow> Some (readAlarm s (int k)) | None \<Rightarrow> Some (readAlarm s 0))"
      using ne by (simp add: findNextBell_scan_find r c cong: option.case_cong)
    also have "\<dots> = (case find (next_bell_candidate s) [0..<nat (total_alarms s)] of
        Some k \<Rightarrow> Some (alarm_table s ! k) | None \<Rightarrow> Some (alarm_table s ! 0))"
    proof (cases "find (next_bell_candidate s) [0..<nat (total_alarms s)]")
      case None
      then show ?thesis by (simp add: t0)
    next
      case (Some k)
      then have "k < length (alarm_table s)" by (auto simp: find_Some_iff len)
      with Some show ?thesis by (simp add: alarm_table_nth)
    qed
    also have "\<dots> = (case find ?Q [0..<length (alarm_table s)] of
        Some k \<Rightarrow> Some (alarm_table s ! k) | None \<Rightarrow> Some (alarm_table s ! 0))"
      by (simp only: fq)
    also have "\<dots> = findNextBell_spec (isWeekend s (set_day s)) (alarm_table s)
        (alarms_triggered_today s) (hh s, mm s)"
      using False ne by (simp add: findNextBell_spec_def)
    finally show ?thesis .
  qed
qed


theorem findNextBell_refines_spec_witness:
  "alarm_table ex_out_of_order = [(9, 0), (8, 0)] \<and> hh ex_out_of_order = 8 \<and> mm ex_out_of_order = 30
   \<and> next_bell (findNextBell ex_out_of_order) = Some (9, 0)"
proof -
  have t: "total_alarms ex_out_of_order = 2"
    by (simp add: ex_out_of_order_def saveAlarm_def Let_def initial_state_def)
  have a: "alarm_table ex_out_of_order = [(9, 0), (8, 0)]"
    by (simp add: alarm_table_def t upt_rec) (simp add: ex_out_of_order_def readAlarm_def saveAlarm_def Let_def initial_state_def EEPROM_read_def EEPROM_write_def)
  have w: "\<not> isWeekend ex_out_of_order (set_day ex_out_of_order)"
    by (simp add: isWeekend_def ex_out_of_order_def saveAlarm_def Let_def initial_state_def)
  have h: "hh ex_out_of_order = 8" "mm ex_out_of_order = 30"
    by (simp_all add: ex_out_of_order_def)
  from findNextBell_refines_spec [of ex_out_of_order] show ?thesis
    by (simp add: a w h findNextBell_spec_def later_than_def upt_rec)
qed

section \<open>Boot-time validation of the settings\<close>

lemma updateTimeFromRTC_config [simp]:
  "bell_duration (updateTimeFromRTC s now) = bell_duration s"
  "weekend (updateTimeFromRTC s now) = weekend s"
  "total_alarms (updateTimeFromRTC s now) = total_alarms s"
  "eeprom (updateTimeFromRTC s now) = eeprom s"
  "bellActive (updateTimeFromRTC s now) = bellActive s"
  "bellStart (updateTimeFromRTC s now) = bellStart s"
  "relay (updateTimeFromRTC s now) = relay s"
  "led_bell (updateTimeFromRTC s now) = led_bell s"
  "last_rtc_update (updateTimeFromRTC s now) = last_rtc_update s"
  "next_bell_hour (updateTimeFromRTC s now) = next_bell_hour s"
  "next_bell_minute (updateTimeFromRTC s now) = next_bell_minute s"
  "next_bell_found (updateTimeFromRTC s now) = next_bell_found s"
  by (simp_all add: updateTimeFromRTC_def Let_def)

lemma setup_settings_values:
  "bell_duration (setup_settings s) =
     (if 1 \<le> EEPROM_read (eeprom s) BELL_DURATION_ADDR \<and> EEPROM_read (eeprom s) BELL_DURATION_ADDR \<le> 99
      then EEPROM_read (eeprom s) BELL_DURATION_ADDR else 3)"
  "weekend (setup_settings s) =
     (if 1 \<le> EEPROM_read (eeprom s) WEEKEND_DAY_ADDR \<and> EEPROM_read (eeprom s) WEEKEND_DAY_ADDR \<le> 7
      then EEPROM_read (eeprom s) WEEKEND_DAY_ADDR else 6)"
  "total_alarms (setup_settings s) =
     (if EEPROM_read (eeprom s) ALARM_COUNT_ADDR \<le> 30
      then EEPROM_read (eeprom s) ALARM_COUNT_ADDR else 0)"
  by (auto simp: setup_settings_def Let_def)

lemma setup_settings_eeprom:
  "EEPROM_read (eeprom (setup_settings s)) a =
     (if a = BELL_DURATION_ADDR then bell_duration (setup_settings s)
      else if a = WEEKEND_DAY_ADDR then weekend (setup_settings s)
      else if a = ALARM_COUNT_ADDR then total_alarms (setup_settings s)
      else EEPROM_read (eeprom s) a)"
  by (auto simp: setup_settings_def Let_def EEPROM_read_write)

lemma setup_sketch_config:
  "bell_duration (setup_sketch e now) = bell_duration (setup_settings (initial_state (initializeEEPROM e)))"
  "weekend (setup_sketch e now) = weekend (setup_settings (initial_state (initializeEEPROM e)))"
  "total_alarms (setup_sketch e now) = total_alarms (setup_settings (initial_state (initializeEEPROM e)))"
  "eeprom (setup_sketch e now) = eeprom (setup_settings (initial_state (initializeEEPROM e)))"
  by (simp_all add: setup_sketch_def Let_def)

text \<open>C8: after \<open>setup\<close>, each setting is the value loaded from the store when that lies in
  its domain (1..99, 1..7, at most 30) and the default (3, 6, 0) otherwise, the store holds
  the setting in use (a replaced value is written back, a valid one is left), and no other
  cell changes. The values loaded are those of the store after \<open>initializeEEPROM\<close>, which
  leaves a store that carries the init flag as it is. \<open>setup_sketch\<close> is total: no error
  value exists.\<close>

theorem setup_validates_settings:
  "bell_duration (setup_sketch e now) =
       (if 1 \<le> EEPROM_read (initializeEEPROM e) BELL_DURATION_ADDR
              \<and> EEPROM_read (initializeEEPROM e) BELL_DURATION_ADDR \<le> 99
        then EEPROM_read (initializeEEPROM e) BELL_DURATION_ADDR else 3)
   \<and> weekend (setup_sketch e now) =
       (if 1 \<le> EEPROM_read (initializeEEPROM e) WEEKEND_DAY_ADDR
              \<and> EEPROM_read (initializeEEPROM e) WEEKEND_DAY_ADDR \<le> 7
        then EEPROM_read (initializeEEPROM e) WEEKEND_DAY_ADDR else 6)
   \<and> total_alarms (setup_sketch e now) =
       (if EEPROM_read (initializeEEPROM e) ALARM_COUNT_ADDR \<le> 30
        then EEPROM_read (initializeEEPROM e) ALARM_COUNT_ADDR else 0)
   \<and> EEPROM_read (eeprom (setup_sketch e now)) BELL_DURATION_ADDR = bell_duration (setup_sketch e now)
   \<and> EEPROM_read (eeprom (setup_sketch e now)) WEEKEND_DAY_ADDR = weekend (setup_sketch e now)
   \<and> EEPROM_read (eeprom (setup_sketch e now)) ALARM_COUNT_ADDR = total_alarms (setup_sketch e now)
   \<and> (\<forall>a. a \<noteq> BELL_DURATION_ADDR \<and> a \<noteq> WEEKEND_DAY_ADDR \<and> a \<noteq> ALARM_COUNT_ADDR \<longrightarrow>
         EEPROM_read (eeprom (setup_sketch e now)) a = EEPROM_read (initializeEEPROM e) a)
   \<and> (EEPROM_read e EEPROM_INIT_FLAG = 0xAA \<longrightarrow> initializeEEPROM e = e)"
proof -
  have k: "eeprom (initial_state (initializeEEPROM e)) = initializeEEPROM e"
    by (simp add: initial_state_def)
  show ?thesis
    by (simp add: setup_sketch_config setup_settings_values setup_settings_eeprom k
        initializeEEPROM_kept)
qed

theorem setup_validates_settings_witness:
  "EEPROM_read ex_corrupt_settings EEPROM_INIT_FLAG = 0xAA
   \<and> EEPROM_read ex_corrupt_settings BELL_DURATION_ADDR = 150
   \<and> EEPROM_read ex_corrupt_settings WEEKEND_DAY_ADDR = 0
   \<and> EEPROM_read ex_corrupt_settings ALARM_COUNT_ADDR = 200
   \<and> bell_duration (setup_sketch ex_corrupt_settings (monday_at 7 59 0)) = 3
   \<and> weekend (setup_sketch ex_corrupt_settings (monday_at 7 59 0)) = 6
   \<and> total_alarms (setup_sketch ex_corrupt_settings (monday_at 7 59 0)) = 0
   \<and> EEPROM_read (eeprom (setup_sketch ex_corrupt_settings (monday_at 7 59 0))) BELL_DURATION_ADDR = 3
   \<and> EEPROM_read (eeprom (setup_sketch ex_corrupt_settings (monday_at 7 59 0))) WEEKEND_DAY_ADDR = 6
   \<and> EEPROM_read (eeprom (setup_sketch ex_corrupt_settings (monday_at 7 59 0))) ALARM_COUNT_ADDR = 0"
proof -
  have v: "EEPROM_read ex_corrupt_settings EEPROM_INIT_FLAG = 0xAA"
    "EEPROM_read ex_corrupt_settings BELL_DURATION_ADDR = 150"
    "EEPROM_read ex_corrupt_settings WEEKEND_DAY_ADDR = 0"
    "EEPROM_read ex_corrupt_settings ALARM_COUNT_ADDR = 200"
    by (simp_all add: ex_corrupt_settings_def EEPROM_read_def)
  from setup_validates_settings [of ex_corrupt_settings "monday_at 7 59 0"] v show ?thesis
    by simp
qed

section \<open>The start-bell scan\<close>

lemma readAlarm_cong:
  "total_alarms s' = total_alarms s \<Longrightarrow> eeprom s' = eeprom s \<Longrightarrow> readAlarm s' i = readAlarm s i"
  by (simp add: readAlarm_def)

lemma fire_alarm_fields [simp]:
  "alarms_triggered_today (fire_alarm s t k) = (alarms_triggered_today s)[k := True]"
  "lastBellMinute (fire_alarm s t k) = mm s"
  "bellActive (fire_alarm s t k)" "bellStart (fire_alarm s t k) = t"
  "relay (fire_alarm s t k)" "led_bell (fire_alarm s t k)"
  "hh (fire_alarm s t k) = hh s" "mm (fire_alarm s t k) = mm s" "ss (fire_alarm s t k) = ss s"
  "set_day (fire_alarm s t k) = set_day s" "total_alarms (fire_alarm s t k) = total_alarms s"
  "eeprom (fire_alarm s t k) = eeprom s" "weekend (fire_alarm s t k) = weekend s"
  "bell_duration (fire_alarm s t k) = bell_duration s"
  "rtc_valid (fire_alarm s t k) = rtc_valid s"
  "last_rtc_update (fire_alarm s t k) = last_rtc_update s"
  by (simp_all add: fire_alarm_def)

lemma startBell_scan_done:
  "\<not> int i < total_alarms s \<Longrightarrow> startBell_scan i s t = s"
  by (subst startBell_scan.simps) simp

lemma startBell_scan_step:
  "int i < total_alarms s \<Longrightarrow>
   startBell_scan i s t =
     (if alarm_matches s i then fire_alarm s t i else startBell_scan (Suc i) s t)"
  by (subst startBell_scan.simps) simp

lemma startBell_scan_none:
  "(\<forall>j. i \<le> j \<and> int j < total_alarms s \<longrightarrow> \<not> alarm_matches s j) \<Longrightarrow> startBell_scan i s t = s"
proof (induction "nat (total_alarms s) - i" arbitrary: i)
  case 0
  then have "\<not> int i < total_alarms s" by linarith
  then show ?case by (rule startBell_scan_done)
next
  case (Suc n)
  then have lt: "int i < total_alarms s" by linarith
  from Suc have n: "n = nat (total_alarms s) - Suc i" by simp
  from Suc.prems lt have no: "\<not> alarm_matches s i" by simp
  from Suc.prems have rest: "\<forall>j. Suc i \<le> j \<and> int j < total_alarms s \<longrightarrow> \<not> alarm_matches s j"
    by simp
  show ?case
    using Suc.hyps(1) [OF n rest] no by (simp add: startBell_scan_step [OF lt])
qed

lemma startBell_scan_first:
  "i \<le> k \<Longrightarrow> int k < total_alarms s \<Longrightarrow> alarm_matches s k \<Longrightarrow>
   (\<forall>j. i \<le> j \<and> j < k \<longrightarrow> \<not> alarm_matches s j) \<Longrightarrow>
   startBell_scan i s t = fire_alarm s t k"
proof (induction "k - i" arbitrary: i)
  case 0
  then have "i = k" by simp
  with 0 show ?case by (simp add: startBell_scan_step)
next
  case (Suc n)
  then have lt: "int i < total_alarms s" and ik: "i < k" by linarith+
  from Suc have n: "n = k - Suc i" by simp
  from Suc.prems ik have no: "\<not> alarm_matches s i" by simp
  from Suc.prems have rest: "\<forall>j. Suc i \<le> j \<and> j < k \<longrightarrow> \<not> alarm_matches s j" by simp
  from ik have "Suc i \<le> k" by simp
  from Suc.hyps(1) [OF n this Suc.prems(2,3) rest] no
  show ?case by (simp add: startBell_scan_step [OF lt])
qed

lemma startBell_cases:
  "startBell s t = s \<or>
   (\<exists>k. \<not> bellActive s \<and> \<not> isWeekend s (set_day s) \<and> int k < total_alarms s \<and>
        alarm_matches s k \<and> (\<forall>j<k. \<not> alarm_matches s j) \<and> startBell s t = fire_alarm s t k)"
proof (cases "\<not> bellActive s \<and> \<not> isWeekend s (set_day s) \<and>
              (\<exists>j. int j < total_alarms s \<and> alarm_matches s j)")
  case True
  then obtain j where j: "int j < total_alarms s \<and> alarm_matches s j" by blast
  define k where "k = (LEAST j. int j < total_alarms s \<and> alarm_matches s j)"
  have k: "int k < total_alarms s \<and> alarm_matches s k"
    unfolding k_def using j by (rule LeastI)
  have m: "\<forall>j<k. \<not> (int j < total_alarms s \<and> alarm_matches s j)"
    unfolding k_def using not_less_Least by blast
  with k have m': "\<forall>j. 0 \<le> j \<and> j < k \<longrightarrow> \<not> alarm_matches s j" by auto
  have "startBell_scan 0 s t = fire_alarm s t k"
    using k m' by (intro startBell_scan_first) auto
  with True k m' show ?thesis by (auto simp: startBell_def)
next
  case False
  then have "startBell s t = s"
    by (auto simp: startBell_def intro: startBell_scan_none)
  then show ?thesis by simp
qed

lemma startBell_frame [simp]:
  "hh (startBell s t) = hh s" "mm (startBell s t) = mm s" "ss (startBell s t) = ss s"
  "set_day (startBell s t) = set_day s" "total_alarms (startBell s t) = total_alarms s"
  "eeprom (startBell s t) = eeprom s" "weekend (startBell s t) = weekend s"
  "bell_duration (startBell s t) = bell_duration s"
  "rtc_valid (startBell s t) = rtc_valid s"
  "last_rtc_update (startBell s t) = last_rtc_update s"
  "length (alarms_triggered_today (startBell s t)) = length (alarms_triggered_today s)"
  using startBell_cases [of s t] by auto

lemma stopBell_frame [simp]:
  "hh (stopBell s t) = hh s" "mm (stopBell s t) = mm s" "ss (stopBell s t) = ss s"
  "set_day (stopBell s t) = set_day s" "total_alarms (stopBell s t) = total_alarms s"
  "eeprom (stopBell s t) = eeprom s" "weekend (stopBell s t) = weekend s"
  "bell_duration (stopBell s t) = bell_duration s"
  "rtc_valid (stopBell s t) = rtc_valid s"
  "last_rtc_update (stopBell s t) = last_rtc_update s"
  "alarms_triggered_today (stopBell s t) = alarms_triggered_today s"
  "lastBellMinute (stopBell s t) = lastBellMinute s"
  "bellStart (stopBell s t) = bellStart s"
  "next_bell_hour (stopBell s t) = next_bell_hour s"
  "next_bell_minute (stopBell s t) = next_bell_minute s"
  "next_bell_found (stopBell s t) = next_bell_found s"
  by (simp_all add: stopBell_def)

lemma rtc_poll_frame [simp]:
  "bell_duration (rtc_poll s t now) = bell_duration s"
  "weekend (rtc_poll s t now) = weekend s"
  "total_alarms (rtc_poll s t now) = total_alarms s"
  "eeprom (rtc_poll s t now) = eeprom s"
  "bellActive (rtc_poll s t now) = bellActive s"
  "bellStart (rtc_poll s t now) = bellStart s"
  "relay (rtc_poll s t now) = relay s"
  "led_bell (rtc_poll s t now) = led_bell s"
  "next_bell_hour (rtc_poll s t now) = next_bell_hour s"
  "next_bell_minute (rtc_poll s t now) = next_bell_minute s"
  "next_bell_found (rtc_poll s t now) = next_bell_found s"
  by (simp_all add: rtc_poll_def)

text \<open>The flags after a clock poll: all cleared together with \<open>lastBellMinute\<close>, or both
  as before.\<close>

lemma rtc_poll_flags:
  "length (alarms_triggered_today s) = MAX_ALARMS \<Longrightarrow>
   (alarms_triggered_today (rtc_poll s t now) = replicate MAX_ALARMS False \<and>
      lastBellMinute (rtc_poll s t now) = -1) \<or>
   (alarms_triggered_today (rtc_poll s t now) = alarms_triggered_today s \<and>
      lastBellMinute (rtc_poll s t now) = lastBellMinute s)"
  by (auto simp: rtc_poll_def updateTimeFromRTC_def Let_def clear_triggered_eq)

text \<open>Two equal entries in slots 0 and 1: the invariant that slot 1 has not fired and
  that, once slot 0 has, \<open>lastBellMinute\<close> is the entries' minute.\<close>

lemma duplicate_step:
  assumes "total_alarms s = 2" and "readAlarm s 0 = readAlarm s 1"
    and "length (alarms_triggered_today s) = MAX_ALARMS"
    and "\<not> alarms_triggered_today s ! 1"
    and "alarms_triggered_today s ! 0 \<longrightarrow> lastBellMinute s = snd (readAlarm s 0)"
  shows "total_alarms (loop_iter s inp) = 2 \<and> readAlarm (loop_iter s inp) 0 = readAlarm s 0
    \<and> readAlarm (loop_iter s inp) 1 = readAlarm s 1
    \<and> length (alarms_triggered_today (loop_iter s inp)) = MAX_ALARMS
    \<and> \<not> alarms_triggered_today (loop_iter s inp) ! 1
    \<and> (alarms_triggered_today (loop_iter s inp) ! 0 \<longrightarrow>
         lastBellMinute (loop_iter s inp) = snd (readAlarm s 0))"
proof -
  obtain t now where inp: "inp = (t, now)" by (cases inp)
  let ?p = "rtc_poll s t now"
  let ?b = "startBell ?p t"
  have rp: "readAlarm ?p i = readAlarm s i" for i by (rule readAlarm_cong) simp_all
  have rb: "readAlarm ?b i = readAlarm s i" for i by (rule readAlarm_cong) simp_all
  have rl: "readAlarm (loop_iter s inp) i = readAlarm s i" for i
    by (rule readAlarm_cong) (simp_all add: loop_iter_def inp)
  have p: "length (alarms_triggered_today ?p) = MAX_ALARMS \<and> \<not> alarms_triggered_today ?p ! 1
      \<and> (alarms_triggered_today ?p ! 0 \<longrightarrow> lastBellMinute ?p = snd (readAlarm s 0))"
    using rtc_poll_flags [OF assms(3), of t now] assms by auto
  have b: "length (alarms_triggered_today ?b) = MAX_ALARMS \<and> \<not> alarms_triggered_today ?b ! 1
      \<and> (alarms_triggered_today ?b ! 0 \<longrightarrow> lastBellMinute ?b = snd (readAlarm s 0))"
    using startBell_cases [of ?p t]
  proof
    assume "?b = ?p"
    with p show ?thesis by simp
  next
    assume "\<exists>k. \<not> bellActive ?p \<and> \<not> isWeekend ?p (set_day ?p) \<and> int k < total_alarms ?p \<and>
        alarm_matches ?p k \<and> (\<forall>j<k. \<not> alarm_matches ?p j) \<and> ?b = fire_alarm ?p t k"
    then obtain k where k: "int k < total_alarms ?p" "alarm_matches ?p k"
      "\<forall>j<k. \<not> alarm_matches ?p j" "?b = fire_alarm ?p t k" by blast
    from k(1) assms(1) have "k = 0 \<or> k = 1" by auto
    then show ?thesis
    proof
      assume k0: "k = 0"
      with k(2) have "snd (readAlarm s 0) = mm ?p" by (simp add: alarm_matches_def rp)
      with k(4) k0 p show ?thesis by simp
    next
      assume k1: "k = 1"
      with k(3) have n0: "\<not> alarm_matches ?p 0" by simp
      from k1 k(2) have m1: "readAlarm s 1 = (hh ?p, mm ?p)" "lastBellMinute ?p \<noteq> mm ?p"
        by (simp_all add: alarm_matches_def rp prod_eq_iff)
      with n0 assms(2) have "alarms_triggered_today ?p ! 0"
        by (simp add: alarm_matches_def rp)
      with p have "lastBellMinute ?p = snd (readAlarm s 0)" by simp
      with m1 assms(2) show ?thesis by simp
    qed
  qed
  from assms(1) b show ?thesis
    by (simp add: rl) (simp add: loop_iter_def inp)
qed

lemma duplicate_run:
  "total_alarms s = 2 \<Longrightarrow> readAlarm s 0 = readAlarm s 1 \<Longrightarrow>
   length (alarms_triggered_today s) = MAX_ALARMS \<Longrightarrow> \<not> alarms_triggered_today s ! 1 \<Longrightarrow>
   (alarms_triggered_today s ! 0 \<longrightarrow> lastBellMinute s = snd (readAlarm s 0)) \<Longrightarrow>
   \<not> alarms_triggered_today (run s inps) ! 1"
proof (induction inps arbitrary: s)
  case Nil
  then show ?case by (simp add: run_def)
next
  case (Cons inp inps)
  from duplicate_step [OF Cons.prems, of inp]
  have "\<not> alarms_triggered_today (run (loop_iter s inp) inps) ! 1"
    by (intro Cons.IH) (simp_all add: Cons.prems)
  then show ?case by (simp add: run_def)
qed

section \<open>Evaluating the example runs\<close>

lemma run_Nil: "run s [] = s"
  by (simp add: run_def)

lemma run_Cons: "run s (x # xs) = run (loop_iter s x) xs"
  by (simp add: run_def)

lemma ex_school_reads:
  "EEPROM_read ex_school_eeprom 0 = 0xAA" "EEPROM_read ex_school_eeprom 10 = 3"
  "EEPROM_read ex_school_eeprom 11 = 6" "EEPROM_read ex_school_eeprom 12 = 2"
  "EEPROM_read ex_school_eeprom 50 = 8" "EEPROM_read ex_school_eeprom 51 = 0"
  "EEPROM_read ex_school_eeprom 52 = 9" "EEPROM_read ex_school_eeprom 53 = 0"
  "EEPROM_read (ex_school_eeprom(10 := d)) 0 = 0xAA"
  "EEPROM_read (ex_school_eeprom(10 := d)) 10 = uint d"
  "EEPROM_read (ex_school_eeprom(10 := d)) 11 = 6" "EEPROM_read (ex_school_eeprom(10 := d)) 12 = 2"
  "EEPROM_read (ex_school_eeprom(10 := d)) 50 = 8" "EEPROM_read (ex_school_eeprom(10 := d)) 51 = 0"
  "EEPROM_read (ex_school_eeprom(10 := d)) 52 = 9" "EEPROM_read (ex_school_eeprom(10 := d)) 53 = 0"
  by (simp_all add: ex_school_eeprom_def EEPROM_read_def)

lemmas eval_simps = run_Nil run_Cons loop_iter_def rtc_poll_def updateTimeFromRTC_def startBell_def
  startBell_scan_step startBell_scan_done alarm_matches_def readAlarm_def fire_alarm_def
  findNextBell_def findNextBell_scan_step findNextBell_scan_done next_bell_candidate_def
  later_than_def stopBell_def bell_limit_def int16_wrap_def isWeekend_def monday_at_def
  tuesday_at_def ex_invalid_reading_def Let_def clear_triggered_eq next_bell_def

lemmas boot_simps = setup_sketch_def setup_settings_def initial_state_def initializeEEPROM_kept

lemma ex_boot_eq:
  "ex_boot = \<lparr> hh = 7, mm = 59, ss = 0, set_day = 2, bell_duration = 3, weekend = 6,
       total_alarms = 2, next_bell_hour = 8, next_bell_minute = 0,
       next_bell_found = True, rtc_valid = True, last_rtc_update = 0,
       bellActive = False, bellStart = 0, lastBellMinute = -1,
       alarms_triggered_today = replicate MAX_ALARMS False, last_checked_day = 2,
       eeprom = ex_school_eeprom, relay = False, led_bell = False \<rparr>"
  by (simp add: ex_boot_def boot_simps ex_school_reads eval_simps)

lemma ex_run_0800:
  "run ex_boot [(61000, monday_at 8 0 0)] =
    \<lparr> hh = 8, mm = 0, ss = 0, set_day = 2, bell_duration = 3, weekend = 6,
       total_alarms = 2, next_bell_hour = 9, next_bell_minute = 0,
       next_bell_found = True, rtc_valid = True, last_rtc_update = 61000,
       bellActive = True, bellStart = 61000, lastBellMinute = 0,
       alarms_triggered_today = (replicate MAX_ALARMS False)[0 := True], last_checked_day = 2,
       eeprom = ex_school_eeprom, relay = True, led_bell = True \<rparr>"
  by (simp add: ex_boot_eq ex_school_reads eval_simps)

lemma ex_run_080003:
  "run ex_boot [(61000, monday_at 8 0 0), (64000, monday_at 8 0 3)] =
    \<lparr> hh = 8, mm = 0, ss = 3, set_day = 2, bell_duration = 3, weekend = 6,
       total_alarms = 2, next_bell_hour = 9, next_bell_minute = 0,
       next_bell_found = True, rtc_valid = True, last_rtc_update = 64000,
       bellActive = False, bellStart = 61000, lastBellMinute = 0,
       alarms_triggered_today = (replicate MAX_ALARMS False)[0 := True], last_checked_day = 2,
       eeprom = ex_school_eeprom, relay = False, led_bell = False \<rparr>"
proof -
  have "run ex_boot [(61000, monday_at 8 0 0), (64000, monday_at 8 0 3)] =
      loop_iter (run ex_boot [(61000, monday_at 8 0 0)]) (64000, monday_at 8 0 3)"
    by (simp only: run_Cons run_Nil)
  also have "\<dots> =
    \<lparr> hh = 8, mm = 0, ss = 3, set_day = 2, bell_duration = 3, weekend = 6,
       total_alarms = 2, next_bell_hour = 9, next_bell_minute = 0,
       next_bell_found = True, rtc_valid = True, last_rtc_update = 64000,
       bellActive = False, bellStart = 61000, lastBellMinute = 0,
       alarms_triggered_today = (replicate MAX_ALARMS False)[0 := True], last_checked_day = 2,
       eeprom = ex_school_eeprom, relay = False, led_bell = False \<rparr>"
    unfolding ex_run_0800 by (simp add: ex_school_reads eval_simps)
  finally show ?thesis .
qed

lemma ex_run_0900:
  "run ex_boot [(61000, monday_at 8 0 0), (64000, monday_at 8 0 3), (3661000, monday_at 9 0 0)] =
    \<lparr> hh = 9, mm = 0, ss = 0, set_day = 2, bell_duration = 3, weekend = 6,
       total_alarms = 2, next_bell_hour = 9, next_bell_minute = 0,
       next_bell_found = True, rtc_valid = True, last_rtc_update = 3661000,
       bellActive = False, bellStart = 61000, lastBellMinute = 0,
       alarms_triggered_today = (replicate MAX_ALARMS False)[0 := True], last_checked_day = 2,
       eeprom = ex_school_eeprom, relay = False, led_bell = False \<rparr>"
proof -
  have "run ex_boot [(61000, monday_at 8 0 0), (64000, monday_at 8 0 3), (3661000, monday_at 9 0 0)] =
      loop_iter (run ex_boot [(61000, monday_at 8 0 0), (64000, monday_at 8 0 3)]) (3661000, monday_at 9 0 0)"
    by (simp only: run_Cons run_Nil)
  also have "\<dots> =
    \<lparr> hh = 9, mm = 0, ss = 0, set_day = 2, bell_duration = 3, weekend = 6,
       total_alarms = 2, next_bell_hour = 9, next_bell_minute = 0,
       next_bell_found = True, rtc_valid = True, last_rtc_update = 3661000,
       bellActive = False, bellStart = 61000, lastBellMinute = 0,
       alarms_triggered_today = (replicate MAX_ALARMS False)[0 := True], last_checked_day = 2,
       eeprom = ex_school_eeprom, relay = False, led_bell = False \<rparr>"
    unfolding ex_run_080003 by (simp add: ex_school_reads eval_simps)
  finally show ?thesis .
qed

lemma ex_run_tuesday:
  "run ex_boot [(61000, monday_at 8 0 0), (64000, monday_at 8 0 3), (57664000, tuesday_at 0 0 0)] =
    \<lparr> hh = 0, mm = 0, ss = 0, set_day = 3, bell_duration = 3, weekend = 6,
       total_alarms = 2, next_bell_hour = 9, next_bell_minute = 0,
       next_bell_found = True, rtc_valid = True, last_rtc_update = 57664000,
       bellActive = False, bellStart = 61000, lastBellMinute = -1,
       alarms_triggered_today = replicate MAX_ALARMS False, last_checked_day = 2,
       eeprom = ex_school_eeprom, relay = False, led_bell = False \<rparr>"
proof -
  have "run ex_boot [(61000, monday_at 8 0 0), (64000, monday_at 8 0 3), (57664000, tuesday_at 0 0 0)] =
      loop_iter (run ex_boot [(61000, monday_at 8 0 0), (64000, monday_at 8 0 3)]) (57664000, tuesday_at 0 0 0)"
    by (simp only: run_Cons run_Nil)
  also have "\<dots> =
    \<lparr> hh = 0, mm = 0, ss = 0, set_day = 3, bell_duration = 3, weekend = 6,
       total_alarms = 2, next_bell_hour = 9, next_bell_minute = 0,
       next_bell_found = True, rtc_valid = True, last_rtc_update = 57664000,
       bellActive = False, bellStart = 61000, lastBellMinute = -1,
       alarms_triggered_today = replicate MAX_ALARMS False, last_checked_day = 2,
       eeprom = ex_school_eeprom, relay = False, led_bell = False \<rparr>"
    unfolding ex_run_080003 by (simp add: ex_school_reads eval_simps)
  finally show ?thesis .
qed


lemma ex_boot_33_eq:
  "ex_boot_33 = \<lparr> hh = 7, mm = 59, ss = 0, set_day = 2, bell_duration = 33, weekend = 6,
       total_alarms = 2, next_bell_hour = 8, next_bell_minute = 0,
       next_bell_found = True, rtc_valid = True, last_rtc_update = 0,
       bellActive = False, bellStart = 0, lastBellMinute = -1,
       alarms_triggered_today = replicate MAX_ALARMS False, last_checked_day = 2,
       eeprom = ex_school_eeprom(10 := 33), relay = False, led_bell = False \<rparr>"
  by (simp add: ex_boot_33_def boot_simps ex_school_reads eval_simps)

lemma ex_boot_66_eq:
  "ex_boot_66 = \<lparr> hh = 7, mm = 59, ss = 0, set_day = 2, bell_duration = 66, weekend = 6,
       total_alarms = 2, next_bell_hour = 8, next_bell_minute = 0,
       next_bell_found = True, rtc_valid = True, last_rtc_update = 0,
       bellActive = False, bellStart = 0, lastBellMinute = -1,
       alarms_triggered_today = replicate MAX_ALARMS False, last_checked_day = 2,
       eeprom = ex_school_eeprom(10 := 66), relay = False, led_bell = False \<rparr>"
  by (simp add: ex_boot_66_def boot_simps ex_school_reads eval_simps)

lemma ex_run_33_0800:
  "run ex_boot_33 [(61000, monday_at 8 0 0)] =
    \<lparr> hh = 8, mm = 0, ss = 0, set_day = 2, bell_duration = 33, weekend = 6,
       total_alarms = 2, next_bell_hour = 9, next_bell_minute = 0,
       next_bell_found = True, rtc_valid = True, last_rtc_update = 61000,
       bellActive = True, bellStart = 61000, lastBellMinute = 0,
       alarms_triggered_today = (replicate MAX_ALARMS False)[0 := True], last_checked_day = 2,
       eeprom = ex_school_eeprom(10 := 33), relay = True, led_bell = True \<rparr>"
  by (simp add: ex_boot_33_eq ex_school_reads eval_simps)

lemma ex_run_66_0800:
  "run ex_boot_66 [(61000, monday_at 8 0 0)] =
    \<lparr> hh = 8, mm = 0, ss = 0, set_day = 2, bell_duration = 66, weekend = 6,
       total_alarms = 2, next_bell_hour = 9, next_bell_minute = 0,
       next_bell_found = True, rtc_valid = True, last_rtc_update = 61000,
       bellActive = True, bellStart = 61000, lastBellMinute = 0,
       alarms_triggered_today = (replicate MAX_ALARMS False)[0 := True], last_checked_day = 2,
       eeprom = ex_school_eeprom(10 := 66), relay = True, led_bell = True \<rparr>"
  by (simp add: ex_boot_66_eq ex_school_reads eval_simps)

lemma ex_duplicates_facts:
  "\<not> bellActive ex_duplicates" "\<not> isWeekend ex_duplicates (set_day ex_duplicates)"
  "total_alarms ex_duplicates = 2" "readAlarm ex_duplicates 0 = (8, 0)"
  "readAlarm ex_duplicates 1 = (8, 0)" "alarms_triggered_today ex_duplicates = replicate MAX_ALARMS False"
  "hh ex_duplicates = 8" "mm ex_duplicates = 0" "lastBellMinute ex_duplicates = -1"
  by (simp_all add: ex_duplicates_def initial_state_def isWeekend_def readAlarm_def EEPROM_read_def)

section \<open>First match only\<close>

text \<open>C4: when no bell is active and the day is no weekend day, the start-bell scan fires
  the first slot in table order that matches (equal to the current hour and minute, flag
  false, minute different from \<open>lastBellMinute\<close>) and no other: exactly that flag is set
  and the bell session starts; with no matching slot the state is unchanged; so one scan
  sets at most one flag. With two equal entries in slots 0 and 1 and both flags clear, no
  run of the loop ever sets the flag of slot 1.\<close>

theorem startBell_first_match_only:
  "(\<not> bellActive s \<and> \<not> isWeekend s (set_day s) \<and> int k < total_alarms s \<and>
      alarm_matches s k \<and> (\<forall>j<k. \<not> alarm_matches s j) \<longrightarrow>
        startBell s t = fire_alarm s t k \<and>
        alarms_triggered_today (startBell s t) = (alarms_triggered_today s)[k := True] \<and>
        bellActive (startBell s t) \<and> bellStart (startBell s t) = t \<and>
        lastBellMinute (startBell s t) = mm s)
   \<and> ((\<forall>j. int j < total_alarms s \<longrightarrow> \<not> alarm_matches s j) \<longrightarrow> startBell s t = s)
   \<and> (\<exists>k. alarms_triggered_today (startBell s t) = alarms_triggered_today s \<or>
            alarms_triggered_today (startBell s t) = (alarms_triggered_today s)[k := True])
   \<and> (total_alarms s = 2 \<and> readAlarm s 0 = readAlarm s 1 \<and>
       length (alarms_triggered_today s) = MAX_ALARMS \<and>
       \<not> alarms_triggered_today s ! 0 \<and> \<not> alarms_triggered_today s ! 1 \<longrightarrow>
         \<not> alarms_triggered_today (run s inps) ! 1)"
proof (intro conjI impI)
  assume a: "\<not> bellActive s \<and> \<not> isWeekend s (set_day s) \<and> int k < total_alarms s \<and>
      alarm_matches s k \<and> (\<forall>j<k. \<not> alarm_matches s j)"
  then have "startBell_scan 0 s t = fire_alarm s t k"
    by (intro startBell_scan_first) auto
  with a show f: "startBell s t = fire_alarm s t k" by (simp add: startBell_def)
  show "alarms_triggered_today (startBell s t) = (alarms_triggered_today s)[k := True]"
    "bellActive (startBell s t)" "bellStart (startBell s t) = t"
    "lastBellMinute (startBell s t) = mm s"
    by (simp_all add: f)
next
  assume "\<forall>j. int j < total_alarms s \<longrightarrow> \<not> alarm_matches s j"
  then have "startBell_scan 0 s t = s" by (intro startBell_scan_none) simp
  then show "startBell s t = s" by (simp add: startBell_def)
next
  from startBell_cases [of s t]
  show "\<exists>k. alarms_triggered_today (startBell s t) = alarms_triggered_today s \<or>
            alarms_triggered_today (startBell s t) = (alarms_triggered_today s)[k := True]"
    by auto
next
  assume "total_alarms s = 2 \<and> readAlarm s 0 = readAlarm s 1 \<and>
       length (alarms_triggered_today s) = MAX_ALARMS \<and>
       \<not> alarms_triggered_today s ! 0 \<and> \<not> alarms_triggered_today s ! 1"
  then show "\<not> alarms_triggered_today (run s inps) ! 1"
    by (intro duplicate_run) simp_all
qed

theorem startBell_first_match_only_witness:
  "\<not> bellActive ex_duplicates \<and> \<not> isWeekend ex_duplicates (set_day ex_duplicates)
   \<and> total_alarms ex_duplicates = 2
   \<and> alarm_matches ex_duplicates 0 \<and> alarm_matches ex_duplicates 1
   \<and> alarms_triggered_today (startBell ex_duplicates 61000) = (replicate MAX_ALARMS False)[0 := True]
   \<and> bellActive (startBell ex_duplicates 61000)
   \<and> \<not> alarms_triggered_today
         (run ex_duplicates [(61000, monday_at 8 0 0), (64000, monday_at 8 0 3), (65000, monday_at 8 0 4)]) ! 1"
proof -
  let ?inps = "[(61000, monday_at 8 0 0), (64000, monday_at 8 0 3), (65000, monday_at 8 0 4)]"
  have m: "alarm_matches ex_duplicates 0" "alarm_matches ex_duplicates 1"
    by (simp_all add: alarm_matches_def ex_duplicates_facts)
  have first: "\<not> bellActive ex_duplicates \<and> \<not> isWeekend ex_duplicates (set_day ex_duplicates) \<and>
      int 0 < total_alarms ex_duplicates \<and> alarm_matches ex_duplicates 0 \<and>
      (\<forall>j<0. \<not> alarm_matches ex_duplicates j)"
    by (simp add: m ex_duplicates_facts(1-3))
  have dup: "total_alarms ex_duplicates = 2 \<and> readAlarm ex_duplicates 0 = readAlarm ex_duplicates 1 \<and>
      length (alarms_triggered_today ex_duplicates) = MAX_ALARMS \<and>
      \<not> alarms_triggered_today ex_duplicates ! 0 \<and> \<not> alarms_triggered_today ex_duplicates ! 1"
    by (simp add: ex_duplicates_facts(3-6))
  note inst = startBell_first_match_only [of ex_duplicates 0 61000 ?inps]
  from inst first have fired:
    "alarms_triggered_today (startBell ex_duplicates 61000) =
       (alarms_triggered_today ex_duplicates)[0 := True]"
    "bellActive (startBell ex_duplicates 61000)"
    by blast+
  from inst dup have never: "\<not> alarms_triggered_today (run ex_duplicates ?inps) ! 1"
    by blast
  from fired(1) have "alarms_triggered_today (startBell ex_duplicates 61000) =
      (replicate MAX_ALARMS False)[0 := True]"
    by (simp only: ex_duplicates_facts(6))
  with first dup m fired(2) never show ?thesis by blast
qed

section \<open>What the clock poll changes\<close>

text \<open>What \<open>updateTimeFromRTC\<close> does to the flags and to \<open>lastBellMinute\<close>: both are
  reset on a valid reading with a new day, both are kept otherwise; the next-bell globals
  are never touched by the clock poll.\<close>

lemma next_bell_updateTimeFromRTC: "next_bell (updateTimeFromRTC s now) = next_bell s"
  by (simp add: next_bell_def)

lemma next_bell_rtc_poll: "next_bell (rtc_poll s t now) = next_bell s"
  by (simp add: next_bell_def)

lemma updateTimeFromRTC_same_day:
  "\<not> IsValid now \<or> DayOfWeek now + 1 = set_day s \<Longrightarrow>
   alarms_triggered_today (updateTimeFromRTC s now) = alarms_triggered_today s \<and>
   lastBellMinute (updateTimeFromRTC s now) = lastBellMinute s"
  by (auto simp: updateTimeFromRTC_def Let_def)

lemma updateTimeFromRTC_day_change:
  "IsValid now \<Longrightarrow> DayOfWeek now + 1 \<noteq> set_day s \<Longrightarrow>
   length (alarms_triggered_today s) = MAX_ALARMS \<Longrightarrow>
   alarms_triggered_today (updateTimeFromRTC s now) = replicate MAX_ALARMS False \<and>
   lastBellMinute (updateTimeFromRTC s now) = -1"
  by (auto simp: updateTimeFromRTC_def Let_def clear_triggered_eq)

section \<open>The minute-of-hour guard\<close>

text \<open>While \<open>lastBellMinute\<close> equals the current minute of the hour the scan fires
  nothing, whatever the hour: the guard compares minutes only, and \<open>lastBellMinute\<close> is
  reset on a day change only.\<close>

lemma startBell_blocked_by_lastBellMinute:
  "lastBellMinute s = mm s \<Longrightarrow> startBell s t = s"
proof -
  assume "lastBellMinute s = mm s"
  then have "\<forall>j. 0 \<le> j \<and> int j < total_alarms s \<longrightarrow> \<not> alarm_matches s j"
    by (simp add: alarm_matches_def)
  then have "startBell_scan 0 s t = s" by (rule startBell_scan_none)
  then show ?thesis by (simp add: startBell_def)
qed

text \<open>What does hold: a slot whose flag is set does not match, and its flag stays set
  through every loop iteration that sees no day change, so no slot rings twice a day.\<close>

lemma triggered_slot_stays_triggered:
  assumes "alarms_triggered_today s ! k" and "k < length (alarms_triggered_today s)"
    and "\<not> IsValid now \<or> DayOfWeek now + 1 = set_day s"
  shows "\<not> alarm_matches (rtc_poll s t now) k"
    and "alarms_triggered_today (loop_iter s (t, now)) ! k"
proof -
  let ?p = "rtc_poll s t now"
  have p: "alarms_triggered_today ?p = alarms_triggered_today s"
    using assms(3) updateTimeFromRTC_same_day [of now "s\<lparr>last_rtc_update := t\<rparr>"]
    by (simp add: rtc_poll_def)
  with assms(1) show "\<not> alarm_matches ?p k" by (simp add: alarm_matches_def)
  have u: "(alarms_triggered_today s)[j := True] ! k" for j
    using assms(1,2) by (cases "j = k") auto
  from startBell_cases [of ?p t] p assms(1)
  have "alarms_triggered_today (startBell ?p t) ! k"
    by (auto simp: u)
  then show "alarms_triggered_today (loop_iter s (t, now)) ! k"
    by (simp add: loop_iter_def)
qed

text \<open>C1, the code at the failing input: alarms at 08:00 and 09:00 on a Monday. The first
  rings at 08:00:00 and stops three seconds later; at 09:00:00 the second slot equals the
  current time and its flag is clear, yet no bell session starts and its flag stays clear,
  because \<open>lastBellMinute\<close> is still 0.\<close>

theorem second_alarm_at_same_minute_is_skipped:
  "readAlarm ex_boot 0 = (8, 0) \<and> readAlarm ex_boot 1 = (9, 0)
   \<and> bellActive (run ex_boot [(61000, monday_at 8 0 0)])
   \<and> alarms_triggered_today (run ex_boot [(61000, monday_at 8 0 0)]) ! 0
   \<and> \<not> bellActive (run ex_boot [(61000, monday_at 8 0 0), (64000, monday_at 8 0 3)])
   \<and> hh (run ex_boot [(61000, monday_at 8 0 0), (64000, monday_at 8 0 3), (3661000, monday_at 9 0 0)]) = 9
   \<and> mm (run ex_boot [(61000, monday_at 8 0 0), (64000, monday_at 8 0 3), (3661000, monday_at 9 0 0)]) = 0
   \<and> lastBellMinute (run ex_boot [(61000, monday_at 8 0 0), (64000, monday_at 8 0 3), (3661000, monday_at 9 0 0)]) = 0
   \<and> \<not> bellActive (run ex_boot [(61000, monday_at 8 0 0), (64000, monday_at 8 0 3), (3661000, monday_at 9 0 0)])
   \<and> \<not> relay (run ex_boot [(61000, monday_at 8 0 0), (64000, monday_at 8 0 3), (3661000, monday_at 9 0 0)])
   \<and> \<not> alarms_triggered_today
         (run ex_boot [(61000, monday_at 8 0 0), (64000, monday_at 8 0 3), (3661000, monday_at 9 0 0)]) ! 1"
  by (simp only: ex_run_0800 ex_run_080003 ex_run_0900)
    (simp add: ex_boot_eq readAlarm_def ex_school_reads)

section \<open>Day rollover\<close>

text \<open>C2, the code at the failing input: after the 08:00 bell of a Monday the first valid
  reading of the Tuesday clears every flag and resets \<open>lastBellMinute\<close> to -1, but the
  next-bell value stays what it was on Monday (09:00); recomputing it would give 08:00.\<close>

theorem day_change_leaves_next_bell_stale:
  "alarms_triggered_today (run ex_boot [(61000, monday_at 8 0 0), (64000, monday_at 8 0 3)]) ! 0
   \<and> set_day (run ex_boot [(61000, monday_at 8 0 0), (64000, monday_at 8 0 3)]) = 2
   \<and> set_day (run ex_boot [(61000, monday_at 8 0 0), (64000, monday_at 8 0 3), (57664000, tuesday_at 0 0 0)]) = 3
   \<and> alarms_triggered_today (run ex_boot [(61000, monday_at 8 0 0), (64000, monday_at 8 0 3), (57664000, tuesday_at 0 0 0)])
        = replicate MAX_ALARMS False
   \<and> lastBellMinute (run ex_boot [(61000, monday_at 8 0 0), (64000, monday_at 8 0 3), (57664000, tuesday_at 0 0 0)]) = -1
   \<and> next_bell (run ex_boot [(61000, monday_at 8 0 0), (64000, monday_at 8 0 3), (57664000, tuesday_at 0 0 0)])
        = Some (9, 0)
   \<and> next_bell (findNextBell
         (run ex_boot [(61000, monday_at 8 0 0), (64000, monday_at 8 0 3), (57664000, tuesday_at 0 0 0)]))
        = Some (8, 0)"
  by (simp only: ex_run_080003 ex_run_tuesday)
    (simp add: ex_school_reads eval_simps)

section \<open>Invalid clock reading\<close>








section \<open>Bell duration\<close>

text \<open>For a duration of at most 32 seconds the product fits 16 bits, and an active bell
  stays on exactly while the elapsed milliseconds are below \<open>bell_duration * 1000\<close>.\<close>

lemma bell_limit_small:
  "0 \<le> d \<Longrightarrow> d \<le> 32 \<Longrightarrow> bell_limit d = word_of_int (d * 1000)"
proof -
  assume "0 \<le> d" "d \<le> 32"
  then have "(d * 1000 + 32768) mod 65536 = d * 1000 + 32768"
    by (intro mod_pos_pos_trivial) auto
  then show ?thesis by (simp add: bell_limit_def int16_wrap_def)
qed

lemma uint_word32_of_int:
  "0 \<le> x \<Longrightarrow> x < 4294967296 \<Longrightarrow> uint (word_of_int x :: 32 word) = x"
  by (simp add: uint_word_of_int take_bit_eq_mod)

lemma stopBell_short_durations:
  assumes "0 \<le> bell_duration s" and "bell_duration s \<le> 32" and "bellActive s"
  shows "bellActive (stopBell s t) \<longleftrightarrow> uint (t - bellStart s) < bell_duration s * 1000"
    and "relay (stopBell s t) \<longleftrightarrow> relay s \<and> uint (t - bellStart s) < bell_duration s * 1000"
proof -
  have "uint (word_of_int (bell_duration s * 1000) :: 32 word) = bell_duration s * 1000"
    using assms by (intro uint_word32_of_int) auto
  then have "bell_limit (bell_duration s) \<le> t - bellStart s \<longleftrightarrow>
      bell_duration s * 1000 \<le> uint (t - bellStart s)"
    using assms by (simp add: bell_limit_small word_le_def)
  with assms show "bellActive (stopBell s t) \<longleftrightarrow> uint (t - bellStart s) < bell_duration s * 1000"
    and "relay (stopBell s t) \<longleftrightarrow> relay s \<and> uint (t - bellStart s) < bell_duration s * 1000"
    by (auto simp: stopBell_def)
qed

text \<open>C7, the code at two failing inputs. With a stored duration of 33 seconds the bell
  that started at 61000 ms is still on 33 seconds later, and an hour later. With a stored
  duration of 66 seconds the bell that started at 61000 ms is off half a second later.\<close>

theorem bell_duration_product_overflows:
  "bell_duration ex_boot_33 = 33
   \<and> bellActive (run ex_boot_33 [(61000, monday_at 8 0 0)])
   \<and> bellStart (run ex_boot_33 [(61000, monday_at 8 0 0)]) = 61000
   \<and> bellActive (loop_iter (run ex_boot_33 [(61000, monday_at 8 0 0)]) (94000, monday_at 8 0 33))
   \<and> relay (loop_iter (run ex_boot_33 [(61000, monday_at 8 0 0)]) (94000, monday_at 8 0 33))
   \<and> bellActive (loop_iter (run ex_boot_33 [(61000, monday_at 8 0 0)]) (3661000, monday_at 9 0 0))
   \<and> bell_duration ex_boot_66 = 66
   \<and> bellActive (run ex_boot_66 [(61000, monday_at 8 0 0)])
   \<and> bellStart (run ex_boot_66 [(61000, monday_at 8 0 0)]) = 61000
   \<and> \<not> bellActive (loop_iter (run ex_boot_66 [(61000, monday_at 8 0 0)]) (61500, monday_at 8 0 0))
   \<and> \<not> relay (loop_iter (run ex_boot_66 [(61000, monday_at 8 0 0)]) (61500, monday_at 8 0 0))"
  unfolding ex_run_33_0800 ex_run_66_0800
  by (simp add: ex_boot_33_eq ex_boot_66_eq ex_school_reads eval_simps)

section \<open>Weekend policy\<close>

lemma loop_iter_weekend:
  assumes "isWeekend (rtc_poll s t now) (set_day (rtc_poll s t now))"
  shows "alarms_triggered_today (loop_iter s (t, now)) = alarms_triggered_today (rtc_poll s t now)"
    and "lastBellMinute (loop_iter s (t, now)) = lastBellMinute (rtc_poll s t now)"
    and "bellActive (loop_iter s (t, now)) \<longrightarrow> bellActive s"
proof -
  from assms have b: "startBell (rtc_poll s t now) t = rtc_poll s t now"
    by (simp add: startBell_def)
  then show "alarms_triggered_today (loop_iter s (t, now)) = alarms_triggered_today (rtc_poll s t now)"
    and "lastBellMinute (loop_iter s (t, now)) = lastBellMinute (rtc_poll s t now)"
    by (simp_all add: loop_iter_def)
  from b show "bellActive (loop_iter s (t, now)) \<longrightarrow> bellActive s"
    by (simp add: loop_iter_def stopBell_def split: if_splits)
qed

lemma rtc_poll_day_change:
  assumes "IsValid now" and "DayOfWeek now + 1 \<noteq> set_day s"
    and "1000 \<le> t - last_rtc_update s" and "length (alarms_triggered_today s) = MAX_ALARMS"
  shows "alarms_triggered_today (rtc_poll s t now) = replicate MAX_ALARMS False"
    and "lastBellMinute (rtc_poll s t now) = -1"
    and "set_day (rtc_poll s t now) = DayOfWeek now + 1"
  using assms updateTimeFromRTC_day_change [of now "s\<lparr>last_rtc_update := t\<rparr>"]
  by (simp_all add: rtc_poll_def) (simp add: updateTimeFromRTC_def Let_def)

text \<open>C6: for every day and selector, \<open>isWeekend\<close> holds exactly when the selector is 6
  and the day is Friday (6) or Saturday (7), or the selector is not 6 and the day equals
  it. On a day where it holds the start-bell scan leaves the state as it is, so a loop
  iteration sets no flag and starts no bell session, also when a slot matches the current
  time. The day-change reset does not depend on it: a due poll with a valid reading of a
  new day clears the trigger flags and \<open>lastBellMinute\<close>, whether the old or the new day
  is a weekend day, and when the new day is one they are still clear after the iteration.\<close>

theorem isWeekend_policy:
  "(isWeekend s d \<longleftrightarrow> (weekend s = 6 \<and> (d = 6 \<or> d = 7)) \<or> (weekend s \<noteq> 6 \<and> d = weekend s))
   \<and> (isWeekend s (set_day s) \<longrightarrow> startBell s t = s)
   \<and> (isWeekend (rtc_poll s t now) (set_day (rtc_poll s t now)) \<longrightarrow>
        bellActive (loop_iter s (t, now)) \<longrightarrow> bellActive s)
   \<and> (IsValid now \<and> DayOfWeek now + 1 \<noteq> set_day s \<and> length (alarms_triggered_today s) = MAX_ALARMS \<longrightarrow>
        alarms_triggered_today (updateTimeFromRTC s now) = replicate MAX_ALARMS False
        \<and> lastBellMinute (updateTimeFromRTC s now) = -1)
   \<and> (isWeekend (rtc_poll s t now) (set_day (rtc_poll s t now)) \<longrightarrow>
        alarms_triggered_today (loop_iter s (t, now)) = alarms_triggered_today (rtc_poll s t now)
        \<and> lastBellMinute (loop_iter s (t, now)) = lastBellMinute (rtc_poll s t now))
   \<and> (IsValid now \<and> DayOfWeek now + 1 \<noteq> set_day s \<and> 1000 \<le> t - last_rtc_update s \<and>
       length (alarms_triggered_today s) = MAX_ALARMS \<longrightarrow>
        alarms_triggered_today (rtc_poll s t now) = replicate MAX_ALARMS False
        \<and> lastBellMinute (rtc_poll s t now) = -1
        \<and> (isWeekend s (DayOfWeek now + 1) \<longrightarrow>
             alarms_triggered_today (loop_iter s (t, now)) = replicate MAX_ALARMS False
             \<and> lastBellMinute (loop_iter s (t, now)) = -1))"
proof (intro conjI impI)
  show "isWeekend s d \<longleftrightarrow> (weekend s = 6 \<and> (d = 6 \<or> d = 7)) \<or> (weekend s \<noteq> 6 \<and> d = weekend s)"
    by (simp add: isWeekend_def)
next
  assume "isWeekend s (set_day s)"
  then show "startBell s t = s" by (simp add: startBell_def)
next
  assume "isWeekend (rtc_poll s t now) (set_day (rtc_poll s t now))"
    and "bellActive (loop_iter s (t, now))"
  then show "bellActive s" using loop_iter_weekend(3) by blast
next
  assume a: "IsValid now \<and> DayOfWeek now + 1 \<noteq> set_day s \<and> length (alarms_triggered_today s) = MAX_ALARMS"
  then show "alarms_triggered_today (updateTimeFromRTC s now) = replicate MAX_ALARMS False"
    "lastBellMinute (updateTimeFromRTC s now) = -1"
    using updateTimeFromRTC_day_change [of now s] by simp_all
next
  assume w: "isWeekend (rtc_poll s t now) (set_day (rtc_poll s t now))"
  then show "alarms_triggered_today (loop_iter s (t, now)) = alarms_triggered_today (rtc_poll s t now)"
    "lastBellMinute (loop_iter s (t, now)) = lastBellMinute (rtc_poll s t now)"
    by (rule loop_iter_weekend)+
next
  assume a: "IsValid now \<and> DayOfWeek now + 1 \<noteq> set_day s \<and> 1000 \<le> t - last_rtc_update s \<and>
       length (alarms_triggered_today s) = MAX_ALARMS"
  then have r: "alarms_triggered_today (rtc_poll s t now) = replicate MAX_ALARMS False"
    "lastBellMinute (rtc_poll s t now) = -1" "set_day (rtc_poll s t now) = DayOfWeek now + 1"
    by (simp_all add: rtc_poll_day_change)
  from r show "alarms_triggered_today (rtc_poll s t now) = replicate MAX_ALARMS False"
    "lastBellMinute (rtc_poll s t now) = -1" by simp_all
  assume "isWeekend s (DayOfWeek now + 1)"
  moreover have "isWeekend (rtc_poll s t now) d = isWeekend s d" for d
    by (simp add: isWeekend_def)
  ultimately have "isWeekend (rtc_poll s t now) (set_day (rtc_poll s t now))"
    by (simp only: r(3))
  then show "alarms_triggered_today (loop_iter s (t, now)) = replicate MAX_ALARMS False"
    "lastBellMinute (loop_iter s (t, now)) = -1"
    by (simp_all add: loop_iter_weekend r)
qed

lemma ex_friday_rung_poll:
  "rtc_poll ex_friday_rung 70000 (saturday_at 8 0 0) =
    \<lparr> hh = 8, mm = 0, ss = 0, set_day = 7, bell_duration = 3, weekend = 6,
       total_alarms = 2, next_bell_hour = 0, next_bell_minute = 0,
       next_bell_found = False, rtc_valid = True, last_rtc_update = 70000,
       bellActive = False, bellStart = 0, lastBellMinute = -1,
       alarms_triggered_today = replicate MAX_ALARMS False, last_checked_day = -1,
       eeprom = ex_school_eeprom, relay = False, led_bell = False \<rparr>"
  by (simp add: ex_friday_rung_def initial_state_def rtc_poll_def updateTimeFromRTC_def
      Let_def clear_triggered_eq saturday_at_def)

theorem isWeekend_policy_witness:
  "isWeekend ex_friday_rung (set_day ex_friday_rung)
   \<and> alarms_triggered_today ex_friday_rung ! 0 \<and> lastBellMinute ex_friday_rung = 0
   \<and> \<not> bellActive ex_friday_rung
   \<and> isWeekend (rtc_poll ex_friday_rung 70000 (saturday_at 8 0 0))
        (set_day (rtc_poll ex_friday_rung 70000 (saturday_at 8 0 0)))
   \<and> alarm_matches (rtc_poll ex_friday_rung 70000 (saturday_at 8 0 0)) 0
   \<and> startBell (rtc_poll ex_friday_rung 70000 (saturday_at 8 0 0)) 70000 =
        rtc_poll ex_friday_rung 70000 (saturday_at 8 0 0)
   \<and> \<not> bellActive (loop_iter ex_friday_rung (70000, saturday_at 8 0 0))
   \<and> alarms_triggered_today (loop_iter ex_friday_rung (70000, saturday_at 8 0 0)) = replicate MAX_ALARMS False
   \<and> lastBellMinute (loop_iter ex_friday_rung (70000, saturday_at 8 0 0)) = -1"
proof -
  let ?now = "saturday_at 8 0 0"
  let ?p = "rtc_poll ex_friday_rung 70000 ?now"
  have s: "isWeekend ex_friday_rung (set_day ex_friday_rung)" "alarms_triggered_today ex_friday_rung ! 0"
    "lastBellMinute ex_friday_rung = 0" "\<not> bellActive ex_friday_rung"
    by (simp_all add: ex_friday_rung_def initial_state_def isWeekend_def)
  have w: "isWeekend ?p (set_day ?p)"
    unfolding ex_friday_rung_poll by (simp add: isWeekend_def)
  have m: "alarm_matches ?p 0"
    unfolding ex_friday_rung_poll by (simp add: alarm_matches_def readAlarm_def ex_school_reads)
  have v: "IsValid ?now \<and> DayOfWeek ?now + 1 \<noteq> set_day ex_friday_rung \<and>
      1000 \<le> 70000 - last_rtc_update ex_friday_rung \<and>
      length (alarms_triggered_today ex_friday_rung) = MAX_ALARMS"
    by (simp add: ex_friday_rung_def initial_state_def saturday_at_def)
  have w': "isWeekend ex_friday_rung (DayOfWeek ?now + 1)"
    by (simp add: ex_friday_rung_def initial_state_def saturday_at_def isWeekend_def)
  note on_poll = isWeekend_policy [of ?p 7 70000 ?now]
  note on_loop = isWeekend_policy [of ex_friday_rung 7 70000 ?now]
  from on_poll w have b: "startBell ?p 70000 = ?p" by blast
  from on_loop w s(4) have nb: "\<not> bellActive (loop_iter ex_friday_rung (70000, ?now))" by blast
  from on_loop v w' have r: "alarms_triggered_today (loop_iter ex_friday_rung (70000, ?now)) = replicate MAX_ALARMS False"
    "lastBellMinute (loop_iter ex_friday_rung (70000, ?now)) = -1" by blast+
  from s w m b nb r show ?thesis by blast
qed

end
